theory Spec2Isabelle
  imports Complex_Main
begin

section \<open>Paths, command lines and the outside world\<close>

text \<open>
  This theory embeds \<^verbatim>\<open>scripts/timeline_assembler.py\<close> (class \<^verbatim>\<open>TimelineAssembler\<close>)
  and the command construction of \<^verbatim>\<open>AudioMixer.mix_voice_and_music\<close> in
  \<^verbatim>\<open>scripts/audio_mixer.py\<close>.

  Modelling decisions:
  \<^item> Durations are Python floats; they are modelled as \<open>real\<close>. \<open>max\<close> and \<open>min\<close>
    select one of their arguments and are exact on finite floats; the additions and
    subtractions of the source are exact here and rounded there.
  \<^item> A \<^verbatim>\<open>pathlib.Path\<close> is its string; \<^verbatim>\<open>dir / name\<close> joins with a slash.
  \<^item> A command line is the list of its arguments. An argument is a list of pieces, so
    that an f-string keeps its literal text and its interpolated values apart:
    \<^verbatim>\<open>str(x)\<close> of a float \<open>x\<close> is the single piece \<open>Flt x\<close>.
  \<^item> The program talks to the outside world through \<^verbatim>\<open>subprocess.run\<close> (ffprobe,
    ffmpeg), \<^verbatim>\<open>Path.exists\<close> and file writes. Every such call is recorded, in order,
    in a history of events, and the world's answer is read from an environment whose
    answers may depend on the whole history so far. Theorems quantify over every
    environment. Console output (\<^verbatim>\<open>print\<close>) is not modelled.
  \<^item> ffprobe either prints the JSON object with the requested numeric fields (the
    parsed value is \<open>Some\<close>) or it does not, and \<^verbatim>\<open>json.loads\<close> or the key lookup
    raises (\<open>None\<close>); the source catches exactly these.
  \<^item> An \<^verbatim>\<open>Optional[Path]\<close> is a \<open>path option\<close>; where the source tests one for
    truth, \<^verbatim>\<open>None\<close> is false and every path is true.
\<close>

type_synonym path = string

definition path_join :: "path \<Rightarrow> string \<Rightarrow> path" where
  "path_join d name = d @ ''/'' @ name"

datatype piece = Lit string | Flt real | Dec int

type_synonym arg = "piece list"

type_synonym command = "arg list"

definition lit :: "string \<Rightarrow> arg" where
  "lit s = [Lit s]"

definition str_float :: "real \<Rightarrow> arg" where
  "str_float x = [Flt x]"

definition str_path :: "path \<Rightarrow> arg" where
  "str_path p = [Lit p]"

text \<open>\<^verbatim>\<open>str(p)\<close> of an \<^verbatim>\<open>Optional[Path]\<close>: \<^verbatim>\<open>str(None)\<close> is the text \<^verbatim>\<open>None\<close>.\<close>

definition str_path_opt :: "path option \<Rightarrow> arg" where
  "str_path_opt p = (case p of None \<Rightarrow> [Lit ''None''] | Some q \<Rightarrow> [Lit q])"

text \<open>
  An event is a process that was run, or a concat list that was written (the file and
  the paths on its \<^verbatim>\<open>file '...'\<close> lines). The environment answers, after a given
  history: whether a path exists, what the duration or the frame size parsed from the
  output of a probe is, with what status a command exits, and what the absolute form of
  a path is.
\<close>

datatype event = Run command | WriteList path "path list"

record env =
  path_exists :: "event list \<Rightarrow> path \<Rightarrow> bool"
  probe_duration :: "event list \<Rightarrow> command \<Rightarrow> real option"
  probe_size :: "event list \<Rightarrow> command \<Rightarrow> (int \<times> int) option"
  returncode :: "event list \<Rightarrow> command \<Rightarrow> int"
  absolute :: "path \<Rightarrow> path"

section \<open>Data model\<close>

record timeline_segment =
  index :: nat
  voiceover_text :: string
  vo_start :: real
  vo_end :: real
  video_path :: "path option"
  trimmed_video_path :: "path option"

definition duration :: "timeline_segment \<Rightarrow> real" where
  "duration s = vo_end s - vo_start s"

record timeline =
  segments :: "timeline_segment list"
  voiceover_path :: "path option"
  voiceover_duration :: real
  music_path :: "path option"

text \<open>
  A voiceover segment is a dict read with \<^verbatim>\<open>segment.get(key, default)\<close>; each of the
  three keys may be missing.
\<close>

record vo_segment =
  seg_text :: "string option"
  seg_start :: "real option"
  seg_end :: "real option"

section \<open>Clip Trimmer: \<^verbatim>\<open>trim_clip_to_duration\<close>\<close>

definition duration_probe_cmd :: "path \<Rightarrow> command" where
  "duration_probe_cmd p =
     [lit ''ffprobe'', lit ''-v'', lit ''error'',
      lit ''-show_entries'', lit ''format=duration'',
      lit ''-of'', lit ''json'',
      str_path p]"

definition trim_cmd :: "path \<Rightarrow> path \<Rightarrow> real \<Rightarrow> command" where
  "trim_cmd input_path output_path final_duration =
     [lit ''ffmpeg'', lit ''-y'',
      lit ''-i'', str_path input_path,
      lit ''-t'', str_float final_duration,
      lit ''-c:v'', lit ''libx264'', lit ''-preset'', lit ''fast'', lit ''-crf'', lit ''23'',
      lit ''-an'',
      str_path output_path]"

definition trim_clip_to_duration ::
  "env \<Rightarrow> event list \<Rightarrow> path \<Rightarrow> path \<Rightarrow> real \<Rightarrow> real \<Rightarrow> bool \<times> event list" where
  "trim_clip_to_duration E h input_path output_path target_duration min_duration =
     (let probe_cmd = duration_probe_cmd input_path;
          h1 = h @ [Run probe_cmd];
          source_duration = (case probe_duration E h probe_cmd of
                               Some d \<Rightarrow> d
                             | None \<Rightarrow> 4.0);
          effective_duration = max target_duration min_duration;
          final_duration = min effective_duration source_duration;
          cmd = trim_cmd input_path output_path final_duration;
          rc = returncode E h1 cmd
      in (rc = 0, h1 @ [Run cmd]))"

section \<open>Timeline Builder: \<^verbatim>\<open>build_timeline\<close>\<close>

text \<open>
  The loop runs over \<^verbatim>\<open>enumerate(zip(voiceover_segments, video_clips))\<close>; \<^verbatim>\<open>zip\<close> stops
  at the end of the shorter list. The source has no length check and raises nothing.
\<close>

definition make_segment :: "nat \<times> vo_segment \<times> path \<Rightarrow> timeline_segment" where
  "make_segment x =
     (case x of (i, segment, clip_path) \<Rightarrow>
        \<lparr>index = i,
         voiceover_text = (case seg_text segment of Some t \<Rightarrow> t | None \<Rightarrow> []),
         vo_start = (case seg_start segment of Some t \<Rightarrow> t | None \<Rightarrow> 0),
         vo_end = (case seg_end segment of Some t \<Rightarrow> t | None \<Rightarrow> 0),
         video_path = Some clip_path,
         trimmed_video_path = None\<rparr>)"

definition build_timeline ::
  "vo_segment list \<Rightarrow> path list \<Rightarrow> path \<Rightarrow> real \<Rightarrow> path option \<Rightarrow> timeline" where
  "build_timeline voiceover_segments video_clips vo_path vo_duration music =
     \<lparr>segments = map make_segment (enumerate 0 (zip voiceover_segments video_clips)),
      voiceover_path = Some vo_path,
      voiceover_duration = vo_duration,
      music_path = music\<rparr>"

section \<open>Trim stage: \<^verbatim>\<open>prepare_timeline_clips\<close>\<close>

text \<open>\<^verbatim>\<open>f"{n:03d}"\<close>: decimal digits, padded with zeros to at least three characters.\<close>

definition digit_char :: "nat \<Rightarrow> char" where
  "digit_char d = ''0123456789'' ! d"

fun dec_digits :: "nat \<Rightarrow> string" where
  "dec_digits n = (if n < 10 then [digit_char n]
                   else dec_digits (n div 10) @ [digit_char (n mod 10)])"

definition fmt03 :: "nat \<Rightarrow> string" where
  "fmt03 n = (let s = dec_digits n in replicate (3 - length s) (CHR ''0'') @ s)"

text \<open>The body of the loop over \<^verbatim>\<open>timeline.segments\<close>, for one segment.\<close>

definition prepare_segment ::
  "env \<Rightarrow> path \<Rightarrow> real \<Rightarrow> event list \<Rightarrow> timeline_segment
     \<Rightarrow> timeline_segment \<times> event list" where
  "prepare_segment E temp_dir min_duration h segment =
     (case video_path segment of
        None \<Rightarrow> (segment, h)
      | Some vp \<Rightarrow>
          if \<not> path_exists E h vp then (segment, h)
          else
            (let trimmed_path =
                   path_join temp_dir (''trimmed_'' @ fmt03 (index segment) @ ''.mp4'');
                 vo_duration = duration segment;
                 effective_duration = max vo_duration min_duration;
                 r = trim_clip_to_duration E h vp trimmed_path effective_duration min_duration
             in if fst r
                then (segment\<lparr>trimmed_video_path := Some trimmed_path\<rparr>, snd r)
                else (segment\<lparr>trimmed_video_path := Some vp\<rparr>, snd r)))"

fun prepare_segments ::
  "env \<Rightarrow> path \<Rightarrow> real \<Rightarrow> event list \<Rightarrow> timeline_segment list
     \<Rightarrow> timeline_segment list \<times> event list" where
  "prepare_segments E temp_dir min_duration h [] = ([], h)"
| "prepare_segments E temp_dir min_duration h (s # ss) =
     (let r = prepare_segment E temp_dir min_duration h s;
          rs = prepare_segments E temp_dir min_duration (snd r) ss
      in (fst r # fst rs, snd rs))"

definition prepare_timeline_clips ::
  "env \<Rightarrow> path \<Rightarrow> event list \<Rightarrow> timeline \<Rightarrow> real \<Rightarrow> bool \<times> timeline \<times> event list" where
  "prepare_timeline_clips E temp_dir h tln min_duration =
     (let rs = prepare_segments E temp_dir min_duration h (segments tln)
      in (True, tln\<lparr>segments := fst rs\<rparr>, snd rs))"

section \<open>Concatenator: \<^verbatim>\<open>concatenate_clips\<close>\<close>

text \<open>
  The lines written to the concat list, one \<^verbatim>\<open>file '<absolute path>'\<close> per segment that
  has a trimmed path that exists; a line is represented by its path.
\<close>

fun concat_lines :: "env \<Rightarrow> event list \<Rightarrow> timeline_segment list \<Rightarrow> path list" where
  "concat_lines E h [] = []"
| "concat_lines E h (s # ss) =
     (case trimmed_video_path s of
        None \<Rightarrow> concat_lines E h ss
      | Some p \<Rightarrow> if path_exists E h p then absolute E p # concat_lines E h ss
                  else concat_lines E h ss)"

definition concat_cmd :: "path \<Rightarrow> path \<Rightarrow> command" where
  "concat_cmd concat_list output_path =
     [lit ''ffmpeg'', lit ''-y'',
      lit ''-f'', lit ''concat'', lit ''-safe'', lit ''0'',
      lit ''-i'', str_path concat_list,
      lit ''-c:v'', lit ''libx264'', lit ''-preset'', lit ''fast'', lit ''-crf'', lit ''23'',
      lit ''-movflags'', lit ''+faststart'',
      str_path output_path]"

definition concatenate_clips ::
  "env \<Rightarrow> path \<Rightarrow> event list \<Rightarrow> timeline \<Rightarrow> path \<Rightarrow> bool \<times> event list" where
  "concatenate_clips E temp_dir h tln output_path =
     (let concat_list = path_join temp_dir ''concat_timeline.txt'';
          h1 = h @ [WriteList concat_list (concat_lines E h (segments tln))];
          cmd = concat_cmd concat_list output_path;
          rc = returncode E h1 cmd
      in (rc = 0, h1 @ [Run cmd]))"

section \<open>Outro Synthesizer: \<^verbatim>\<open>_create_outro_sequence\<close>\<close>

definition size_probe_cmd :: "path \<Rightarrow> command" where
  "size_probe_cmd p =
     [lit ''ffprobe'', lit ''-v'', lit ''error'',
      lit ''-select_streams'', lit ''v:0'',
      lit ''-show_entries'', lit ''stream=width,height'',
      lit ''-of'', lit ''json'',
      str_path p]"

definition black_cmd :: "int \<Rightarrow> int \<Rightarrow> real \<Rightarrow> path \<Rightarrow> command" where
  "black_cmd width height gap black_path =
     [lit ''ffmpeg'', lit ''-y'',
      lit ''-f'', lit ''lavfi'',
      lit ''-i'', [Lit ''color=c=black:s='', Dec width, Lit ''x'', Dec height,
                   Lit '':d='', Flt (gap + 0.5), Lit '':r=24''],
      lit ''-c:v'', lit ''libx264'', lit ''-preset'', lit ''fast'', lit ''-crf'', lit ''23'',
      str_path black_path]"

definition fade_cmd :: "path \<Rightarrow> real \<Rightarrow> path \<Rightarrow> command" where
  "fade_cmd video fade_start faded_path =
     [lit ''ffmpeg'', lit ''-y'',
      lit ''-i'', str_path video,
      lit ''-vf'', [Lit ''fade=t=out:st='', Flt fade_start, Lit '':d=1.5:color=black''],
      lit ''-c:v'', lit ''libx264'', lit ''-preset'', lit ''fast'', lit ''-crf'', lit ''23'',
      lit ''-an'',
      str_path faded_path]"

definition splice_cmd :: "path \<Rightarrow> real \<Rightarrow> path \<Rightarrow> command" where
  "splice_cmd concat_list target_duration output_path =
     [lit ''ffmpeg'', lit ''-y'',
      lit ''-f'', lit ''concat'', lit ''-safe'', lit ''0'',
      lit ''-i'', str_path concat_list,
      lit ''-c:v'', lit ''libx264'', lit ''-preset'', lit ''fast'', lit ''-crf'', lit ''23'',
      lit ''-t'', str_float target_duration,
      str_path output_path]"

text \<open>
  The result of the black-fill command is not inspected by the source; only the fade and
  the final concatenation are checked. \<open>cta_text\<close> is accepted and unused, as in the source.
\<close>

definition create_outro_sequence ::
  "env \<Rightarrow> path \<Rightarrow> event list \<Rightarrow> path \<Rightarrow> real \<Rightarrow> real \<Rightarrow> string
     \<Rightarrow> path option \<times> event list" where
  "create_outro_sequence E temp_dir h video current_duration target_duration cta_text =
     (let gap = target_duration - current_duration;
          fade_start = max 0 (current_duration - 1.5);
          probe_cmd = size_probe_cmd video;
          h1 = h @ [Run probe_cmd];
          wh = (case probe_size E h probe_cmd of Some d \<Rightarrow> d | None \<Rightarrow> (1280, 720));
          black_path = path_join temp_dir ''black_outro.mp4'';
          h2 = h1 @ [Run (black_cmd (fst wh) (snd wh) gap black_path)];
          faded_path = path_join temp_dir ''video_faded.mp4'';
          fade = fade_cmd video fade_start faded_path;
          fade_rc = returncode E h2 fade;
          h3 = h2 @ [Run fade]
      in if fade_rc \<noteq> 0 then (None, h3)
         else
           (let concat_list = path_join temp_dir ''outro_concat.txt'';
                h4 = h3 @ [WriteList concat_list [absolute E faded_path, absolute E black_path]];
                output_path = path_join temp_dir ''video_with_outro.mp4'';
                cmd = splice_cmd concat_list target_duration output_path;
                rc = returncode E h4 cmd;
                h5 = h4 @ [Run cmd]
            in if rc = 0 \<and> path_exists E h5 output_path then (Some output_path, h5)
               else (None, h5)))"

section \<open>Audio Mixer: \<^verbatim>\<open>mix_final_audio\<close>\<close>

definition mix_filter_complex :: "real \<Rightarrow> arg" where
  "mix_filter_complex music_volume =
     [Lit ''[1:a]aresample=48000[vo];[2:a]aresample=48000,volume='', Flt music_volume,
      Lit ''[music];[vo][music]amix=inputs=2:duration=first:normalize=0[audio]'']"

definition mix_music_cmd :: "path \<Rightarrow> path option \<Rightarrow> path \<Rightarrow> path \<Rightarrow> real \<Rightarrow> command" where
  "mix_music_cmd video vo music output_path music_volume =
     [lit ''ffmpeg'', lit ''-y'',
      lit ''-i'', str_path video,
      lit ''-i'', str_path_opt vo,
      lit ''-i'', str_path music,
      lit ''-filter_complex'', mix_filter_complex music_volume,
      lit ''-map'', lit ''0:v'',
      lit ''-map'', lit ''[audio]'',
      lit ''-c:v'', lit ''copy'',
      lit ''-c:a'', lit ''aac'', lit ''-b:a'', lit ''256k'',
      lit ''-ar'', lit ''48000'',
      lit ''-movflags'', lit ''+faststart'',
      str_path output_path]"

definition mix_voice_cmd :: "path \<Rightarrow> path option \<Rightarrow> path \<Rightarrow> command" where
  "mix_voice_cmd video vo output_path =
     [lit ''ffmpeg'', lit ''-y'',
      lit ''-i'', str_path video,
      lit ''-i'', str_path_opt vo,
      lit ''-map'', lit ''0:v'',
      lit ''-map'', lit ''1:a'',
      lit ''-c:v'', lit ''copy'',
      lit ''-c:a'', lit ''aac'', lit ''-b:a'', lit ''256k'',
      lit ''-ar'', lit ''48000'',
      lit ''-movflags'', lit ''+faststart'',
      str_path output_path]"

definition mix_cmd ::
  "env \<Rightarrow> event list \<Rightarrow> path \<Rightarrow> path option \<Rightarrow> path option \<Rightarrow> path \<Rightarrow> real \<Rightarrow> command" where
  "mix_cmd E h video vo music output_path music_volume =
     (case music of
        None \<Rightarrow> mix_voice_cmd video vo output_path
      | Some m \<Rightarrow> if path_exists E h m
                  then mix_music_cmd video vo m output_path music_volume
                  else mix_voice_cmd video vo output_path)"

definition mix_final_audio ::
  "env \<Rightarrow> event list \<Rightarrow> path \<Rightarrow> path option \<Rightarrow> path option \<Rightarrow> path \<Rightarrow> real
     \<Rightarrow> bool \<times> event list" where
  "mix_final_audio E h video vo music output_path music_volume =
     (let cmd = mix_cmd E h video vo music output_path music_volume;
          rc = returncode E h cmd
      in (rc = 0, h @ [Run cmd]))"

section \<open>Assembler: \<^verbatim>\<open>assemble\<close>\<close>

datatype assemble_result =
  Failed string
| Assembled (local_path: path) (vo_length: real) (video_duration: real)

text \<open>
  Step 2.5 of \<^verbatim>\<open>assemble\<close>: the video handed to the mixer, the video duration that is
  reported, and the history after the step.
\<close>

definition outro_step ::
  "env \<Rightarrow> path \<Rightarrow> event list \<Rightarrow> timeline \<Rightarrow> path \<Rightarrow> real \<Rightarrow> path \<times> real \<times> event list" where
  "outro_step E temp_dir h tln concat_path video_dur =
     (if video_dur < voiceover_duration tln
      then
        (let r = create_outro_sequence E temp_dir h concat_path video_dur
                   (voiceover_duration tln + 0.5)
                   (if segments tln = [] then [] else voiceover_text (last (segments tln)))
         in case fst r of
              Some p \<Rightarrow> (p, voiceover_duration tln + 0.5, snd r)
            | None \<Rightarrow> (concat_path, video_dur, snd r))
      else (concat_path, video_dur, h))"

definition assemble ::
  "env \<Rightarrow> path \<Rightarrow> event list \<Rightarrow> timeline \<Rightarrow> path \<Rightarrow> real \<Rightarrow> assemble_result \<times> event list" where
  "assemble E temp_dir h tln output_path music_volume =
     (let prep = prepare_timeline_clips E temp_dir h tln 2.5;
          tl1 = fst (snd prep);
          h1 = snd (snd prep)
      in if \<not> fst prep then (Failed ''Failed to prepare clips'', h1)
         else
           (let concat_path = path_join temp_dir ''timeline_concat.mp4'';
                cc = concatenate_clips E temp_dir h1 tl1 concat_path
            in if \<not> fst cc then (Failed ''Failed to concatenate clips'', snd cc)
               else
                 (let probe_cmd = duration_probe_cmd concat_path;
                      h3 = snd cc @ [Run probe_cmd];
                      video_dur = (case probe_duration E (snd cc) probe_cmd of
                                     Some d \<Rightarrow> d
                                   | None \<Rightarrow> 0);
                      st = outro_step E temp_dir h3 tl1 concat_path video_dur;
                      mx = mix_final_audio E (snd (snd st)) (fst st) (voiceover_path tl1)
                             (music_path tl1) output_path music_volume
                  in if \<not> fst mx then (Failed ''Failed to mix audio'', snd mx)
                     else (Assembled output_path (voiceover_duration tl1) (fst (snd st)),
                           snd mx))))"

section \<open>The second mixer: \<^verbatim>\<open>AudioMixer.mix_voice_and_music\<close> (command construction)\<close>

text \<open>
  \<^verbatim>\<open>audio_mixer.py\<close> holds a second mixer, used by the pipeline when no timing data is
  available. Its three commands are modelled as the source builds them: the voiceover and
  the music are first resampled into WAV files by two commands of their own, and a third
  command mixes the two files. \<open>channels\<close> is the channel count that
  \<^verbatim>\<open>get_audio_info\<close> reports for the voiceover. The probes of \<^verbatim>\<open>get_audio_info\<close> and
  the validation of the output that follows the mix are not modelled.
\<close>

record audio_mix_config =
  target_sample_rate :: int
  target_channels :: int
  voice_target_lufs :: real
  music_target_lufs :: real
  voice_volume :: real
  music_volume :: real
  output_lufs :: real
  output_true_peak :: real

definition default_audio_mix_config :: audio_mix_config where
  "default_audio_mix_config =
     \<lparr>target_sample_rate = 48000, target_channels = 2,
      voice_target_lufs = - 16.0, music_target_lufs = - 26.0,
      voice_volume = 1.0, music_volume = 0.15,
      output_lufs = - 16.0, output_true_peak = - 1.5\<rparr>"

definition voice_norm_cmd :: "audio_mix_config \<Rightarrow> int \<Rightarrow> path \<Rightarrow> path \<Rightarrow> command" where
  "voice_norm_cmd cfg channels voice_path voice_norm =
     [lit ''ffmpeg'', lit ''-y'', lit ''-i'', str_path voice_path,
      lit ''-af'', [Lit ''aresample='', Dec (target_sample_rate cfg)]
                   @ (if channels = 1 then [Lit '',pan=stereo|c0=c0|c1=c0''] else []),
      lit ''-ar'', [Dec (target_sample_rate cfg)],
      lit ''-ac'', lit ''2'',
      lit ''-c:a'', lit ''pcm_s16le'',
      str_path voice_norm]"

definition music_norm_cmd :: "audio_mix_config \<Rightarrow> path \<Rightarrow> path \<Rightarrow> command" where
  "music_norm_cmd cfg music music_norm =
     [lit ''ffmpeg'', lit ''-y'', lit ''-i'', str_path music,
      lit ''-af'', [Lit ''aresample='', Dec (target_sample_rate cfg)],
      lit ''-ar'', [Dec (target_sample_rate cfg)],
      lit ''-ac'', lit ''2'',
      lit ''-c:a'', lit ''pcm_s16le'',
      str_path music_norm]"

definition mixer_filter_complex :: "audio_mix_config \<Rightarrow> arg" where
  "mixer_filter_complex cfg =
     [Lit ''[1:a]volume='', Flt (voice_volume cfg),
      Lit ''[v];[2:a]volume='', Flt (music_volume cfg),
      Lit ''[m];[v][m]amix=inputs=2:duration=first:dropout_transition=0:normalize=0,volume=1.5[out]'']"

definition mixer_mix_cmd :: "audio_mix_config \<Rightarrow> path \<Rightarrow> path \<Rightarrow> path \<Rightarrow> path \<Rightarrow> command" where
  "mixer_mix_cmd cfg video voice_norm music_norm output_path =
     [lit ''ffmpeg'', lit ''-y'',
      lit ''-i'', str_path video,
      lit ''-i'', str_path voice_norm,
      lit ''-i'', str_path music_norm,
      lit ''-filter_complex'', mixer_filter_complex cfg,
      lit ''-map'', lit ''0:v'',
      lit ''-map'', lit ''[out]'',
      lit ''-c:v'', lit ''copy'',
      lit ''-c:a'', lit ''aac'',
      lit ''-b:a'', lit ''256k'',
      lit ''-ar'', [Dec (target_sample_rate cfg)],
      lit ''-movflags'', lit ''+faststart'',
      str_path output_path]"

definition mix_voice_and_music_cmds ::
  "audio_mix_config \<Rightarrow> int \<Rightarrow> path \<Rightarrow> path \<Rightarrow> path \<Rightarrow> path \<Rightarrow> path \<Rightarrow> command list" where
  "mix_voice_and_music_cmds cfg channels temp_dir video voice_path music output_path =
     (let voice_norm = path_join temp_dir ''voice_normalized.wav'';
          music_norm = path_join temp_dir ''music_normalized.wav''
      in [voice_norm_cmd cfg channels voice_path voice_norm,
          music_norm_cmd cfg music music_norm,
          mixer_mix_cmd cfg video voice_norm music_norm output_path])"

section \<open>Reading a filter graph\<close>

text \<open>
  The \<^verbatim>\<open>-filter_complex\<close> argument is a text. To state what a graph does, it is also
  given as a structure: chains separated by \<^verbatim>\<open>;\<close>, each with its input pads, its
  filters separated by \<^verbatim>\<open>,\<close> and its output pad; a filter has a name and options
  separated by \<^verbatim>\<open>:\<close> (an option without a key is positional). \<open>render_graph\<close> prints
  the structure; the lemmas below show that the printed structure is, character by
  character, the text the source builds.
\<close>

datatype fval = Txt string | Val real

datatype filt = Filt (filt_name: string) (filt_opts: "(string \<times> fval) list")

datatype chain = Chain (chain_ins: "string list") (chain_filts: "filt list") (chain_out: string)

fun merge_lits :: "arg \<Rightarrow> arg" where
  "merge_lits (Lit a # Lit b # r) = merge_lits (Lit (a @ b) # r)"
| "merge_lits (x # r) = x # merge_lits r"
| "merge_lits [] = []"

fun sep_by :: "arg \<Rightarrow> arg list \<Rightarrow> arg" where
  "sep_by s [] = []"
| "sep_by s [x] = x"
| "sep_by s (x # y # r) = x @ s @ sep_by s (y # r)"

definition render_val :: "fval \<Rightarrow> arg" where
  "render_val v = (case v of Txt s \<Rightarrow> [Lit s] | Val x \<Rightarrow> [Flt x])"

definition render_opt :: "string \<times> fval \<Rightarrow> arg" where
  "render_opt kv = (if fst kv = [] then render_val (snd kv)
                    else Lit (fst kv @ ''='') # render_val (snd kv))"

definition render_filt :: "filt \<Rightarrow> arg" where
  "render_filt f = (if filt_opts f = [] then [Lit (filt_name f)]
                    else Lit (filt_name f @ ''='') # sep_by [Lit '':''] (map render_opt (filt_opts f)))"

definition render_chain :: "chain \<Rightarrow> arg" where
  "render_chain c =
     map (\<lambda>l. Lit (''['' @ l @ '']'')) (chain_ins c)
     @ sep_by [Lit '',''] (map render_filt (chain_filts c))
     @ [Lit (''['' @ chain_out c @ '']'')]"

definition render_graph :: "chain list \<Rightarrow> arg" where
  "render_graph g = merge_lits (sep_by [Lit '';''] (map render_chain g))"

definition mix_graph :: "real \<Rightarrow> chain list" where
  "mix_graph vol =
     [Chain [''1:a''] [Filt ''aresample'' [([], Txt ''48000'')]] ''vo'',
      Chain [''2:a''] [Filt ''aresample'' [([], Txt ''48000'')],
                       Filt ''volume'' [([], Val vol)]] ''music'',
      Chain [''vo'', ''music'']
            [Filt ''amix'' [(''inputs'', Txt ''2''), (''duration'', Txt ''first''),
                            (''normalize'', Txt ''0'')]] ''audio'']"

definition mixer_graph :: "audio_mix_config \<Rightarrow> chain list" where
  "mixer_graph cfg =
     [Chain [''1:a''] [Filt ''volume'' [([], Val (voice_volume cfg))]] ''v'',
      Chain [''2:a''] [Filt ''volume'' [([], Val (music_volume cfg))]] ''m'',
      Chain [''v'', ''m'']
            [Filt ''amix'' [(''inputs'', Txt ''2''), (''duration'', Txt ''first''),
                            (''dropout_transition'', Txt ''0''), (''normalize'', Txt ''0'')],
             Filt ''volume'' [([], Txt ''1.5'')]] ''out'']"

text \<open>The chain that produces a pad, and the filters that follow a named filter in a chain.\<close>

definition producer :: "chain list \<Rightarrow> string \<Rightarrow> chain option" where
  "producer g l = find (\<lambda>c. chain_out c = l) g"

definition filters_after :: "string \<Rightarrow> chain \<Rightarrow> filt list" where
  "filters_after n c = drop 1 (dropWhile (\<lambda>f. filt_name f \<noteq> n) (chain_filts c))"

definition graph_filter_names :: "chain list \<Rightarrow> string list" where
  "graph_filter_names g = map filt_name (concat (map chain_filts g))"

text \<open>An option occurs on a command line when one of the arguments is its name.\<close>

definition has_flag :: "string \<Rightarrow> command \<Rightarrow> bool" where
  "has_flag f c = ([Lit f] \<in> set c)"

text \<open>
  The options of the transcoder that bound the length of its output or filter its audio.
\<close>

definition option_names :: "string set" where
  "option_names = {''-shortest'', ''-t'', ''-to'', ''-af'', ''-filter_complex''}"

section \<open>The contract of the Timeline Builder as the specification words it\<close>

text \<open>
  The specification's Timeline Builder fails with \<open>MismatchedInputError\<close> when the two
  lists differ in length and otherwise pairs segment \<open>i\<close> with clip \<open>i\<close>. This
  definition follows those words, for comparison with \<open>build_timeline\<close> above, which
  follows the source.
\<close>

datatype build_error = MismatchedInputError

definition build_timeline_spec ::
  "vo_segment list \<Rightarrow> path list \<Rightarrow> path \<Rightarrow> real \<Rightarrow> path option \<Rightarrow> build_error + timeline" where
  "build_timeline_spec voiceover_segments video_clips vo_path vo_duration music =
     (if length voiceover_segments \<noteq> length video_clips then Inl MismatchedInputError
      else Inr \<lparr>segments = map (\<lambda>i. make_segment (i, voiceover_segments ! i, video_clips ! i))
                               [0..<length voiceover_segments],
                voiceover_path = Some vo_path,
                voiceover_duration = vo_duration,
                music_path = music\<rparr>)"

section \<open>Auxiliary notions for the statements\<close>

text \<open>A segment is written to the concat list when it has a trimmed path that exists.\<close>

definition written :: "env \<Rightarrow> event list \<Rightarrow> timeline_segment \<Rightarrow> bool" where
  "written E h s = (case trimmed_video_path s of None \<Rightarrow> False | Some p \<Rightarrow> path_exists E h p)"

text \<open>The timeline and the history that \<open>prepare_timeline_clips\<close> leaves behind.\<close>

definition prepared_timeline :: "env \<Rightarrow> path \<Rightarrow> event list \<Rightarrow> timeline \<Rightarrow> real \<Rightarrow> timeline" where
  "prepared_timeline E temp_dir h tln min_duration =
     fst (snd (prepare_timeline_clips E temp_dir h tln min_duration))"

definition prepared_history :: "env \<Rightarrow> path \<Rightarrow> event list \<Rightarrow> timeline \<Rightarrow> real \<Rightarrow> event list" where
  "prepared_history E temp_dir h tln min_duration =
     snd (snd (prepare_timeline_clips E temp_dir h tln min_duration))"

text \<open>The default of the keyword argument \<^verbatim>\<open>music_volume\<close> of \<^verbatim>\<open>mix_final_audio\<close> and \<^verbatim>\<open>assemble\<close>.\<close>

definition default_music_volume :: real where
  "default_music_volume = 0.15"

section \<open>Concrete environments used to run the model\<close>

text \<open>
  A world in which every file exists, every probe of a duration answers \<open>d\<close> (\<open>None\<close>:
  the probe prints nothing usable), every probe of a frame size answers 1920x1080, and a
  command exits with status 1 exactly when \<open>bad\<close> says so.
\<close>

definition world :: "real option \<Rightarrow> (command \<Rightarrow> bool) \<Rightarrow> env" where
  "world d bad =
     \<lparr>path_exists = (\<lambda>h p. True),
      probe_duration = (\<lambda>h c. d),
      probe_size = (\<lambda>h c. Some (1920, 1080)),
      returncode = (\<lambda>h c. if bad c then 1 else 0),
      absolute = (\<lambda>p. p)\<rparr>"

text \<open>A world without any file, in which every command succeeds.\<close>

definition no_files :: env where
  "no_files =
     \<lparr>path_exists = (\<lambda>h p. False),
      probe_duration = (\<lambda>h c. None),
      probe_size = (\<lambda>h c. None),
      returncode = (\<lambda>h c. 0),
      absolute = (\<lambda>p. p)\<rparr>"

definition never :: "command \<Rightarrow> bool" where
  "never c = False"

definition always :: "command \<Rightarrow> bool" where
  "always c = True"

definition is_black_fill :: "command \<Rightarrow> bool" where
  "is_black_fill c = (take 4 c = [lit ''ffmpeg'', lit ''-y'', lit ''-f'', lit ''lavfi''])"

definition hello :: "real \<Rightarrow> real \<Rightarrow> vo_segment" where
  "hello a b = \<lparr>seg_text = Some ''hello'', seg_start = Some a, seg_end = Some b\<rparr>"

definition one_shot :: "real \<Rightarrow> timeline" where
  "one_shot d = build_timeline [hello 0 d] [''a.mp4''] ''vo.mp3'' d None"

definition two_shots :: timeline where
  "two_shots = build_timeline [hello 0 3, hello 3 9] [''a.mp4'', ''b.mp4''] ''vo.mp3'' 9 None"

section \<open>Evaluation rules for the concrete runs\<close>

lemmas run_defs =
  assemble_def prepare_timeline_clips_def prepare_segment_def trim_clip_to_duration_def
  concatenate_clips_def outro_step_def create_outro_sequence_def mix_final_audio_def mix_cmd_def
  build_timeline_def make_segment_def world_def is_black_fill_def never_def always_def hello_def
  prepared_timeline_def prepared_history_def one_shot_def two_shots_def
  duration_def Let_def path_join_def fmt03_def digit_char_def written_def

lemmas cmd_defs =
  trim_cmd_def concat_cmd_def black_cmd_def fade_cmd_def splice_cmd_def mix_voice_cmd_def
  mix_music_cmd_def duration_probe_cmd_def size_probe_cmd_def lit_def str_path_def
  str_path_opt_def str_float_def

lemma replicate_small:
  "replicate 1 c = [c]" "replicate 2 c = [c, c]" "replicate 3 c = [c, c, c]"
  by (simp_all add: numeral_2_eq_2 numeral_3_eq_3)

section \<open>Timeline Builder\<close>

lemma build_timeline_index:
  "map index (segments (build_timeline vs cs vp vd mp)) = [0..<min (length vs) (length cs)]"
proof -
  have "index \<circ> make_segment = fst"
    by (rule ext) (simp add: make_segment_def split: prod.splits)
  then show ?thesis
    by (simp add: build_timeline_def)
qed

text \<open>
  C5, as stated, fails: with two voiceover segments and one clip the source raises
  nothing. \<^verbatim>\<open>zip\<close> drops the second segment and a timeline with one segment is
  returned, where the specification's contract answers \<open>MismatchedInputError\<close>.
\<close>

theorem build_timeline_no_length_check:
  "length [hello 0 3, hello 3 9] \<noteq> length [''a.mp4'']
   \<and> build_timeline_spec [hello 0 3, hello 3 9] [''a.mp4''] ''vo.mp3'' 9 None
       = Inl MismatchedInputError
   \<and> build_timeline [hello 0 3, hello 3 9] [''a.mp4''] ''vo.mp3'' 9 None
       = \<lparr>segments = [\<lparr>index = 0, voiceover_text = ''hello'', vo_start = 0, vo_end = 3,
                       video_path = Some ''a.mp4'', trimmed_video_path = None\<rparr>],
          voiceover_path = Some ''vo.mp3'', voiceover_duration = 9, music_path = None\<rparr>"
  by (simp add: build_timeline_spec_def build_timeline_def make_segment_def hello_def)

text \<open>
  C5, amended. \<open>build_timeline\<close> never fails. It returns a timeline with
  \<open>min (#segments) (#clips)\<close> segments, segment \<open>i\<close> pairing voiceover segment \<open>i\<close> with
  clip \<open>i\<close> (index \<open>i\<close>, the segment's text, start and end with the defaults of
  \<^verbatim>\<open>.get\<close>, no trimmed path yet); the surplus of the longer list is dropped. The other
  fields are the arguments. When the two lists have the same length this is the
  timeline of the specification's contract.
\<close>

theorem build_timeline_pairs_up_to_shorter:
  "length (segments (build_timeline vs cs vp vd mp)) = min (length vs) (length cs)
   \<and> (\<forall>i < min (length vs) (length cs).
         segments (build_timeline vs cs vp vd mp) ! i
           = \<lparr>index = i,
              voiceover_text = (case seg_text (vs ! i) of Some t \<Rightarrow> t | None \<Rightarrow> []),
              vo_start = (case seg_start (vs ! i) of Some t \<Rightarrow> t | None \<Rightarrow> 0),
              vo_end = (case seg_end (vs ! i) of Some t \<Rightarrow> t | None \<Rightarrow> 0),
              video_path = Some (cs ! i),
              trimmed_video_path = None\<rparr>)
   \<and> voiceover_path (build_timeline vs cs vp vd mp) = Some vp
   \<and> voiceover_duration (build_timeline vs cs vp vd mp) = vd
   \<and> music_path (build_timeline vs cs vp vd mp) = mp
   \<and> (length vs = length cs
        \<longrightarrow> build_timeline_spec vs cs vp vd mp = Inr (build_timeline vs cs vp vd mp))"
proof -
  have n: "\<forall>i < min (length vs) (length cs).
         segments (build_timeline vs cs vp vd mp) ! i = make_segment (i, vs ! i, cs ! i)"
    by (simp add: build_timeline_def nth_enumerate_eq)
  have e: "length vs = length cs
        \<longrightarrow> build_timeline_spec vs cs vp vd mp = Inr (build_timeline vs cs vp vd mp)"
  proof
    assume l: "length vs = length cs"
    have "map (\<lambda>i. make_segment (i, vs ! i, cs ! i)) [0..<length vs]
          = map make_segment (enumerate 0 (zip vs cs))"
      by (rule nth_equalityI) (simp_all add: l nth_enumerate_eq)
    then show "build_timeline_spec vs cs vp vd mp = Inr (build_timeline vs cs vp vd mp)"
      by (simp add: build_timeline_spec_def build_timeline_def l)
  qed
  show ?thesis
    using n e by (simp add: build_timeline_def make_segment_def)
qed

theorem build_timeline_pairs_up_to_shorter_witness:
  "length [hello 0 3, hello 3 9] = length [''a.mp4'', ''b.mp4'']
   \<and> build_timeline_spec [hello 0 3, hello 3 9] [''a.mp4'', ''b.mp4''] ''vo.mp3'' 9 None
       = Inr (build_timeline [hello 0 3, hello 3 9] [''a.mp4'', ''b.mp4''] ''vo.mp3'' 9 None)
   \<and> segments (build_timeline [hello 0 3, hello 3 9] [''a.mp4'', ''b.mp4''] ''vo.mp3'' 9 None) ! 1
       = \<lparr>index = 1, voiceover_text = ''hello'', vo_start = 3, vo_end = 9,
          video_path = Some ''b.mp4'', trimmed_video_path = None\<rparr>"
  using build_timeline_pairs_up_to_shorter
          [of "[hello 0 3, hello 3 9]" "[''a.mp4'', ''b.mp4'']" "''vo.mp3''" 9 None]
  by (simp add: hello_def)

section \<open>Clip Trimmer\<close>

text \<open>
  C1. When the probe of the source clip answers \<open>source_duration\<close>, the trim runs the
  probe and then exactly one ffmpeg command, and the duration it requests with
  \<^verbatim>\<open>-t\<close> is \<open>min (max target_duration min_duration) source_duration\<close>. That duration
  never exceeds \<open>source_duration\<close>; it is \<open>source_duration\<close> itself when the source is
  shorter than the effective target \<open>max target_duration min_duration\<close>, and the effective
  target otherwise.
\<close>

theorem trim_requests_min_max:
  assumes "probe_duration E h (duration_probe_cmd input_path) = Some source_duration"
      and "final = min (max target_duration min_duration) source_duration"
  shows "snd (trim_clip_to_duration E h input_path output_path target_duration min_duration)
           = h @ [Run (duration_probe_cmd input_path),
                  Run (trim_cmd input_path output_path final)]
         \<and> take 4 (drop 2 (trim_cmd input_path output_path final))
           = [lit ''-i'', str_path input_path, lit ''-t'', str_float final]
         \<and> final \<le> source_duration
         \<and> final = (if source_duration < max target_duration min_duration
                      then source_duration
                      else max target_duration min_duration)"
proof -
  have "snd (trim_clip_to_duration E h input_path output_path target_duration min_duration)
           = h @ [Run (duration_probe_cmd input_path),
                  Run (trim_cmd input_path output_path final)]"
    using assms by (simp add: trim_clip_to_duration_def Let_def)
  moreover have "take 4 (drop 2 (trim_cmd input_path output_path final))
           = [lit ''-i'', str_path input_path, lit ''-t'', str_float final]"
    by (simp add: trim_cmd_def)
  moreover have "final \<le> source_duration"
    using assms(2) by simp
  moreover have "final = (if source_duration < max target_duration min_duration
                      then source_duration
                      else max target_duration min_duration)"
    unfolding assms(2) by (auto simp add: min_def max_def)
  ultimately show ?thesis
    by blast
qed

theorem trim_requests_min_max_witness:
  "probe_duration (world (Some 2) never) [] (duration_probe_cmd ''clip.mp4'') = Some 2
   \<and> snd (trim_clip_to_duration (world (Some 2) never) [] ''clip.mp4'' ''out.mp4'' 4 2.5)
     = [Run (duration_probe_cmd ''clip.mp4''), Run (trim_cmd ''clip.mp4'' ''out.mp4'' 2)]"
proof -
  have p: "probe_duration (world (Some 2) never) [] (duration_probe_cmd ''clip.mp4'') = Some 2"
    by (simp add: world_def)
  have f: "(2::real) = min (max 4 2.5) 2"
    by simp
  from trim_requests_min_max [OF p f, of "''out.mp4''"]
  show ?thesis
    using p by simp
qed

section \<open>Trim stage\<close>

lemma prepare_segment_index: "index (fst (prepare_segment E t m h s)) = index s"
  by (simp add: prepare_segment_def Let_def split: option.splits)

lemma prepare_segment_untrimmed:
  "fst (prepare_segment E t m h s) \<lparr>trimmed_video_path := None\<rparr>
   = s \<lparr>trimmed_video_path := None\<rparr>"
  by (simp add: prepare_segment_def Let_def split: option.splits)

lemma prepare_segments_index: "map index (fst (prepare_segments E t m h ss)) = map index ss"
  by (induction ss arbitrary: h) (simp_all add: Let_def prepare_segment_index)

lemma prepare_segments_untrimmed:
  "map (\<lambda>s. s\<lparr>trimmed_video_path := None\<rparr>) (fst (prepare_segments E t m h ss))
   = map (\<lambda>s. s\<lparr>trimmed_video_path := None\<rparr>) ss"
  by (induction ss arbitrary: h) (simp_all add: Let_def prepare_segment_untrimmed)

text \<open>
  The loop reaches segment \<open>i\<close> with the history that the first \<open>i\<close> segments left, and
  what it stores at position \<open>i\<close> is what the loop body makes of segment \<open>i\<close>.
\<close>

lemma prepare_segments_nth:
  "i < length ss \<Longrightarrow>
   fst (prepare_segments E t m h ss) ! i
     = fst (prepare_segment E t m (snd (prepare_segments E t m h (take i ss))) (ss ! i))"
proof (induction ss arbitrary: h i)
  case Nil
  then show ?case by simp
next
  case (Cons s ss)
  show ?case
  proof (cases i)
    case 0
    then show ?thesis by (simp add: Let_def)
  next
    case (Suc j)
    with Cons.prems have "j < length ss" by simp
    from Cons.IH [OF this] show ?thesis
      by (simp add: Suc Let_def)
  qed
qed

lemma prepared_timeline_fields:
  "voiceover_duration (prepared_timeline E t h tln m) = voiceover_duration tln"
  "voiceover_path (prepared_timeline E t h tln m) = voiceover_path tln"
  "music_path (prepared_timeline E t h tln m) = music_path tln"
  by (simp_all add: prepared_timeline_def prepare_timeline_clips_def Let_def)

lemma concat_lines_filter:
  "concat_lines E h ss
   = map (\<lambda>s. absolute E (the (trimmed_video_path s))) (filter (written E h) ss)"
  by (induction ss) (simp_all add: written_def split: option.splits)

text \<open>
  C3, as stated, fails in both of its cases. First run: the clip exists and every
  transcode exits with status 1. The trim fails, yet the segment's trimmed path is set
  (to the untrimmed source clip) and the concat list names that clip. Second run: the
  probe prints nothing usable and the transcodes succeed. The trim is carried out against
  the default source duration, the trimmed path is set to the trimmed file, and the
  concat list names it.
\<close>

theorem trim_failure_keeps_segment:
  "\<not> fst (trim_clip_to_duration (world (Some 5) always) [] ''a.mp4'' ''tmp/trimmed_000.mp4'' 3 2.5)
   \<and> map trimmed_video_path
        (segments (prepared_timeline (world (Some 5) always) ''tmp'' [] (one_shot 3) 2.5))
       = [Some ''a.mp4'']
   \<and> concat_lines (world (Some 5) always)
        (prepared_history (world (Some 5) always) ''tmp'' [] (one_shot 3) 2.5)
        (segments (prepared_timeline (world (Some 5) always) ''tmp'' [] (one_shot 3) 2.5))
       = [''a.mp4'']
   \<and> probe_duration (world None never) [] (duration_probe_cmd ''a.mp4'') = None
   \<and> map trimmed_video_path
        (segments (prepared_timeline (world None never) ''tmp'' [] (one_shot 3) 2.5))
       = [Some ''tmp/trimmed_000.mp4'']
   \<and> concat_lines (world None never)
        (prepared_history (world None never) ''tmp'' [] (one_shot 3) 2.5)
        (segments (prepared_timeline (world None never) ''tmp'' [] (one_shot 3) 2.5))
       = [''tmp/trimmed_000.mp4'']"
  by (simp add: run_defs replicate_small)

text \<open>
  C3, amended. Let \<open>hi\<close> be the history when the loop reaches segment \<open>i\<close>. The segment
  is left as it was (its trimmed path stays unset) only when it has no source clip or
  the clip does not exist at that moment. Otherwise its trimmed path is always set: to
  the trimmed file when the transcode succeeds, and to the untrimmed source clip when it
  fails. A probe that cannot be read does not stop the trim: the transcode is run with
  the default source duration 4.0. The concat list names, in order, exactly the segments
  whose trimmed path is set and exists, so a segment with an unset trimmed path is
  omitted; and the trim stage reports success.
\<close>

theorem trim_failure_substitutes_source:
  assumes "i < length (segments tln)"
      and "s = segments tln ! i"
      and "hi = snd (prepare_segments E temp_dir min_duration h (take i (segments tln)))"
      and "tp = path_join temp_dir (''trimmed_'' @ fmt03 (index s) @ ''.mp4'')"
      and "tln1 = prepared_timeline E temp_dir h tln min_duration"
      and "h1 = prepared_history E temp_dir h tln min_duration"
  shows "segments tln1 ! i
           = (case video_path s of
                None \<Rightarrow> s
              | Some vp \<Rightarrow>
                  if path_exists E hi vp
                  then s\<lparr>trimmed_video_path :=
                           Some (if fst (trim_clip_to_duration E hi vp tp
                                           (max (duration s) min_duration) min_duration)
                                 then tp else vp)\<rparr>
                  else s)
         \<and> snd (trim_clip_to_duration E hi vp tp tgt min_duration)
           = hi @ [Run (duration_probe_cmd vp),
                   Run (trim_cmd vp tp
                          (min (max tgt min_duration)
                               (case probe_duration E hi (duration_probe_cmd vp) of
                                  Some d \<Rightarrow> d | None \<Rightarrow> 4)))]
         \<and> concat_lines E h1 (segments tln1)
           = map (\<lambda>s. absolute E (the (trimmed_video_path s)))
                 (filter (written E h1) (segments tln1))
         \<and> written E h1 (segments tln1 ! i)
           = (\<exists>p. trimmed_video_path (segments tln1 ! i) = Some p \<and> path_exists E h1 p)
         \<and> fst (prepare_timeline_clips E temp_dir h tln min_duration)"
proof -
  have seg1: "segments tln1 = fst (prepare_segments E temp_dir min_duration h (segments tln))"
    by (simp add: assms(5) prepared_timeline_def prepare_timeline_clips_def Let_def)
  have a: "segments tln1 ! i = fst (prepare_segment E temp_dir min_duration hi s)"
    using prepare_segments_nth [OF assms(1)] by (simp add: seg1 assms(2,3))
  have b: "fst (prepare_segment E temp_dir min_duration hi s)
           = (case video_path s of
                None \<Rightarrow> s
              | Some vp \<Rightarrow>
                  if path_exists E hi vp
                  then s\<lparr>trimmed_video_path :=
                           Some (if fst (trim_clip_to_duration E hi vp tp
                                           (max (duration s) min_duration) min_duration)
                                 then tp else vp)\<rparr>
                  else s)"
    by (simp add: prepare_segment_def Let_def assms(4) split: option.splits)
  have c: "snd (trim_clip_to_duration E hi vp tp tgt min_duration)
           = hi @ [Run (duration_probe_cmd vp),
                   Run (trim_cmd vp tp
                          (min (max tgt min_duration)
                               (case probe_duration E hi (duration_probe_cmd vp) of
                                  Some d \<Rightarrow> d | None \<Rightarrow> 4)))]"
    by (simp add: trim_clip_to_duration_def Let_def split: option.splits)
  have d: "written E h1 (segments tln1 ! i)
           = (\<exists>p. trimmed_video_path (segments tln1 ! i) = Some p \<and> path_exists E h1 p)"
    by (simp add: written_def split: option.splits)
  have e: "fst (prepare_timeline_clips E temp_dir h tln min_duration)"
    by (simp add: prepare_timeline_clips_def Let_def)
  show ?thesis
    using a b c d e concat_lines_filter by simp
qed

theorem trim_failure_substitutes_source_witness:
  "(0::nat) < length (segments (one_shot 3))
   \<and> segments (prepared_timeline (world (Some 5) always) ''tmp'' [] (one_shot 3) 2.5) ! 0
       = \<lparr>index = 0, voiceover_text = ''hello'', vo_start = 0, vo_end = 3,
          video_path = Some ''a.mp4'', trimmed_video_path = Some ''a.mp4''\<rparr>
   \<and> written (world (Some 5) always)
         (prepared_history (world (Some 5) always) ''tmp'' [] (one_shot 3) 2.5)
         (segments (prepared_timeline (world (Some 5) always) ''tmp'' [] (one_shot 3) 2.5) ! 0)
   \<and> segments (prepared_timeline no_files ''tmp'' [] (one_shot 3) 2.5) ! 0
       = \<lparr>index = 0, voiceover_text = ''hello'', vo_start = 0, vo_end = 3,
          video_path = Some ''a.mp4'', trimmed_video_path = None\<rparr>
   \<and> \<not> written no_files (prepared_history no_files ''tmp'' [] (one_shot 3) 2.5)
         (segments (prepared_timeline no_files ''tmp'' [] (one_shot 3) 2.5) ! 0)
   \<and> concat_lines no_files (prepared_history no_files ''tmp'' [] (one_shot 3) 2.5)
         (segments (prepared_timeline no_files ''tmp'' [] (one_shot 3) 2.5)) = []"
proof -
  have l: "(0::nat) < length (segments (one_shot 3))"
    by (simp add: one_shot_def build_timeline_def)
  from trim_failure_substitutes_source
         [where E = "world (Some 5) always" and temp_dir = "''tmp''" and min_duration = "2.5"
            and h = "[]" and tln = "one_shot 3" and i = 0, OF l refl refl refl refl refl]
  have a: "segments (prepared_timeline (world (Some 5) always) ''tmp'' [] (one_shot 3) 2.5) ! 0
       = \<lparr>index = 0, voiceover_text = ''hello'', vo_start = 0, vo_end = 3,
          video_path = Some ''a.mp4'', trimmed_video_path = Some ''a.mp4''\<rparr>
     \<and> written (world (Some 5) always)
         (prepared_history (world (Some 5) always) ''tmp'' [] (one_shot 3) 2.5)
         (segments (prepared_timeline (world (Some 5) always) ''tmp'' [] (one_shot 3) 2.5) ! 0)"
    by (simp add: run_defs replicate_small)
  from trim_failure_substitutes_source
         [where E = no_files and temp_dir = "''tmp''" and min_duration = "2.5"
            and h = "[]" and tln = "one_shot 3" and i = 0, OF l refl refl refl refl refl]
  have b: "segments (prepared_timeline no_files ''tmp'' [] (one_shot 3) 2.5) ! 0
       = \<lparr>index = 0, voiceover_text = ''hello'', vo_start = 0, vo_end = 3,
          video_path = Some ''a.mp4'', trimmed_video_path = None\<rparr>
     \<and> \<not> written no_files (prepared_history no_files ''tmp'' [] (one_shot 3) 2.5)
         (segments (prepared_timeline no_files ''tmp'' [] (one_shot 3) 2.5) ! 0)
     \<and> concat_lines no_files (prepared_history no_files ''tmp'' [] (one_shot 3) 2.5)
         (segments (prepared_timeline no_files ''tmp'' [] (one_shot 3) 2.5)) = []"
    by (simp add: run_defs no_files_def)
  show ?thesis
    using l a b by blast
qed

text \<open>
  C10. \<open>prepare_timeline_clips\<close> returns \<open>True\<close> for every timeline, every minimum
  duration and every behaviour of the outside world, so \<open>assemble\<close> never answers
  \<^verbatim>\<open>Failed to prepare clips\<close>.
\<close>

theorem prepare_always_true:
  "fst (prepare_timeline_clips E temp_dir h tln min_duration)
   \<and> fst (assemble E temp_dir h tln output_path vol) \<noteq> Failed ''Failed to prepare clips''"
  by (simp add: prepare_timeline_clips_def assemble_def Let_def)

theorem prepare_always_true_witness:
  "fst (prepare_timeline_clips (world None always) ''tmp'' [] (one_shot 3) 2.5)
   \<and> fst (assemble (world None always) ''tmp'' [] (one_shot 3) ''out.mp4'' 0.15)
       = Failed ''Failed to concatenate clips''
   \<and> fst (prepare_timeline_clips no_files ''tmp'' [] (one_shot 3) 2.5)
   \<and> map trimmed_video_path (segments (prepared_timeline no_files ''tmp'' [] (one_shot 3) 2.5))
       = [None]"
  using prepare_always_true
          [of "world None always" "''tmp''" "[]" "one_shot 3" "2.5" "''out.mp4''" "0.15"]
        prepare_always_true
          [of no_files "''tmp''" "[]" "one_shot 3" "2.5" "''out.mp4''" "0.15"]
  by (simp add: run_defs no_files_def)

section \<open>Concatenator\<close>

text \<open>
  C9. For a timeline made by \<open>build_timeline\<close> and then prepared, under any behaviour of
  the outside world: the prepared segments are the built ones, in the same order, with
  only the trimmed path changed; their indices are \<open>0, 1, 2, ...\<close>; the concat list holds
  the trimmed paths of the segments that are written, in list order; and the indices of
  the written segments are strictly ascending. The trims run one after the other inside
  the loop, so there is no completion order that could differ from the list order.
\<close>

theorem concat_in_narration_order:
  assumes "tln = build_timeline vs cs vp vd mp"
      and "tln1 = prepared_timeline E temp_dir h tln min_duration"
      and "h1 = prepared_history E temp_dir h tln min_duration"
  shows "snd (concatenate_clips E temp_dir h1 tln1 output_path)
           = h1 @ [WriteList (path_join temp_dir ''concat_timeline.txt'')
                     (map (\<lambda>s. absolute E (the (trimmed_video_path s)))
                        (filter (written E h1) (segments tln1))),
                   Run (concat_cmd (path_join temp_dir ''concat_timeline.txt'') output_path)]
         \<and> map index (segments tln1) = [0..<min (length vs) (length cs)]
         \<and> map (\<lambda>s. s\<lparr>trimmed_video_path := None\<rparr>) (segments tln1) = segments tln
         \<and> sorted_wrt (<) (map index (filter (written E h1) (segments tln1)))"
proof -
  have seg1: "segments tln1 = fst (prepare_segments E temp_dir min_duration h (segments tln))"
    by (simp add: assms(2) prepared_timeline_def prepare_timeline_clips_def Let_def)
  have idx: "map index (segments tln1) = [0..<min (length vs) (length cs)]"
    by (simp add: seg1 prepare_segments_index assms(1) build_timeline_index)
  have "map (\<lambda>s. s\<lparr>trimmed_video_path := None\<rparr>) (segments tln) = segments tln"
    by (simp add: assms(1) build_timeline_def make_segment_def map_idI split: prod.splits)
  then have same: "map (\<lambda>s. s\<lparr>trimmed_video_path := None\<rparr>) (segments tln1) = segments tln"
    by (simp add: seg1 prepare_segments_untrimmed)
  have "sorted_wrt (<) (map index (segments tln1))"
    by (simp add: idx)
  then have "sorted_wrt (\<lambda>a b. index a < index b) (filter (written E h1) (segments tln1))"
    by (simp add: sorted_wrt_map sorted_wrt_filter)
  then have srt: "sorted_wrt (<) (map index (filter (written E h1) (segments tln1)))"
    by (simp add: sorted_wrt_map)
  show ?thesis
    using idx same srt by (simp add: concatenate_clips_def Let_def concat_lines_filter)
qed

theorem concat_in_narration_order_witness:
  "snd (concatenate_clips (world (Some 5) never) ''tmp''
          (prepared_history (world (Some 5) never) ''tmp'' [] two_shots 2.5)
          (prepared_timeline (world (Some 5) never) ''tmp'' [] two_shots 2.5) ''c.mp4'') ! 4
     = WriteList ''tmp/concat_timeline.txt'' [''tmp/trimmed_000.mp4'', ''tmp/trimmed_001.mp4'']
   \<and> map index (filter (written (world (Some 5) never)
                           (prepared_history (world (Some 5) never) ''tmp'' [] two_shots 2.5))
                   (segments (prepared_timeline (world (Some 5) never) ''tmp'' [] two_shots 2.5)))
     = [0, 1]"
  using concat_in_narration_order [OF two_shots_def refl refl,
          of "world (Some 5) never" "''tmp''" "[]" "2.5" "''c.mp4''"]
  by (simp add: run_defs replicate_small)

section \<open>Outro Synthesizer and the duration check of the Assembler\<close>

text \<open>
  C4. When the clips are prepared, the concatenation succeeds and the probed duration of
  the concatenated video is at least the voiceover duration, step 2.5 of \<open>assemble\<close>
  runs no command (the history is unchanged, so the Outro Synthesizer is not invoked) and
  hands on the concatenated video; \<open>assemble\<close> then goes from the duration probe
  straight to \<open>mix_final_audio\<close> with the concatenated video as its video input, and
  reports the probed duration.
\<close>

theorem outro_noop:
  assumes "tln1 = prepared_timeline E temp_dir h tln 2.5"
      and "h1 = prepared_history E temp_dir h tln 2.5"
      and "concat_path = path_join temp_dir ''timeline_concat.mp4''"
      and "concatenate_clips E temp_dir h1 tln1 concat_path = (True, h2)"
      and "video_dur = (case probe_duration E h2 (duration_probe_cmd concat_path) of
                          Some d \<Rightarrow> d | None \<Rightarrow> 0)"
      and "voiceover_duration tln \<le> video_dur"
      and "mx = mix_final_audio E (h2 @ [Run (duration_probe_cmd concat_path)]) concat_path
                  (voiceover_path tln) (music_path tln) output_path vol"
  shows "outro_step E temp_dir (h2 @ [Run (duration_probe_cmd concat_path)]) tln1 concat_path video_dur
           = (concat_path, video_dur, h2 @ [Run (duration_probe_cmd concat_path)])
         \<and> assemble E temp_dir h tln output_path vol
           = (if fst mx then Assembled output_path (voiceover_duration tln) video_dur
              else Failed ''Failed to mix audio'', snd mx)"
proof -
  have step: "outro_step E temp_dir (h2 @ [Run (duration_probe_cmd concat_path)]) tln1 concat_path video_dur
           = (concat_path, video_dur, h2 @ [Run (duration_probe_cmd concat_path)])"
    using assms(1,6) by (simp add: outro_step_def prepared_timeline_fields)
  have prep: "prepare_timeline_clips E temp_dir h tln 2.5 = (True, tln1, h1)"
    using assms(1,2)
    by (simp add: prepared_timeline_def prepared_history_def prepare_timeline_clips_def Let_def)
  have "assemble E temp_dir h tln output_path vol
           = (if fst mx then Assembled output_path (voiceover_duration tln) video_dur
              else Failed ''Failed to mix audio'', snd mx)"
    unfolding assemble_def prep Let_def
    using assms(3,4,5,7) step
    by (simp add: assms(1) prepared_timeline_fields)
  with step show ?thesis by simp
qed

theorem outro_noop_witness:
  "voiceover_duration (one_shot 18) \<le> (20::real)
   \<and> fst (assemble (world (Some 20) never) ''tmp'' [] (one_shot 18) ''out.mp4'' 0.15)
       = Assembled ''out.mp4'' 18 20
   \<and> last (snd (assemble (world (Some 20) never) ''tmp'' [] (one_shot 18) ''out.mp4'' 0.15))
       = Run (mix_voice_cmd ''tmp/timeline_concat.mp4'' (Some ''vo.mp3'') ''out.mp4'')"
proof -
  let ?E = "world (Some 20) never"
  let ?c = "path_join ''tmp'' ''timeline_concat.mp4''"
  let ?cc = "concatenate_clips ?E ''tmp'' (prepared_history ?E ''tmp'' [] (one_shot 18) 2.5)
               (prepared_timeline ?E ''tmp'' [] (one_shot 18) 2.5) ?c"
  have c: "?cc = (True, snd ?cc)"
    by (simp add: concatenate_clips_def world_def never_def Let_def)
  have v: "(20::real) = (case probe_duration ?E (snd ?cc) (duration_probe_cmd ?c) of
                          Some d \<Rightarrow> d | None \<Rightarrow> 0)"
    by (simp add: world_def)
  have g: "voiceover_duration (one_shot 18) \<le> (20::real)"
    by (simp add: one_shot_def build_timeline_def)
  from outro_noop [OF refl refl refl c v g refl, of "''out.mp4''" "0.15"]
  have "assemble ?E ''tmp'' [] (one_shot 18) ''out.mp4'' 0.15
          = (Assembled ''out.mp4'' 18 20,
             snd (mix_final_audio ?E (snd ?cc @ [Run (duration_probe_cmd ?c)]) ?c
                   (voiceover_path (one_shot 18)) (music_path (one_shot 18)) ''out.mp4'' 0.15))"
    by (simp add: mix_final_audio_def world_def never_def Let_def one_shot_def build_timeline_def)
  then show ?thesis
    using g
    by (simp add: mix_final_audio_def mix_cmd_def Let_def one_shot_def build_timeline_def
          path_join_def)
qed

text \<open>
  When the video is short and the synthesis returns a path, step 2.5 hands on that path
  and records the padded target.
\<close>

lemma outro_step_some:
  assumes "video_dur < voiceover_duration tln"
      and "fst (create_outro_sequence E temp_dir h concat_path video_dur
                  (voiceover_duration tln + 0.5)
                  (if segments tln = [] then [] else voiceover_text (last (segments tln))))
           = Some p"
  shows "outro_step E temp_dir h tln concat_path video_dur
           = (p, voiceover_duration tln + 0.5,
              snd (create_outro_sequence E temp_dir h concat_path video_dur
                     (voiceover_duration tln + 0.5)
                     (if segments tln = [] then []
                      else voiceover_text (last (segments tln)))))"
  using assms by (simp add: outro_step_def Let_def)

text \<open>
  C2, as stated, fails in the length of the black fill. The gap is the shortfall,
  \<open>voiceover_duration - concatenated_duration\<close>. With a twelve second voiceover and a
  concatenated video that probes at eleven seconds the gap is one second and the synthesis
  succeeds, but the black-fill command it runs asks for \<^verbatim>\<open>d=2\<close>, not for
  \<open>gap + 0.5 = 1.5\<close>: \<^verbatim>\<open>_create_outro_sequence\<close> measures its own gap against the target
  \<open>voiceover_duration + 0.5\<close> that \<open>assemble\<close> passes and then adds the margin a second
  time.
\<close>

theorem black_fill_is_gap_plus_one:
  "(11::real) < voiceover_duration (one_shot 12)
   \<and> fst (create_outro_sequence (world (Some 11) never) ''tmp'' [] ''tmp/timeline_concat.mp4'' 11
            (voiceover_duration (one_shot 12) + 0.5) ''hello'')
       = Some ''tmp/video_with_outro.mp4''
   \<and> snd (create_outro_sequence (world (Some 11) never) ''tmp'' [] ''tmp/timeline_concat.mp4'' 11
            (voiceover_duration (one_shot 12) + 0.5) ''hello'') ! 1
       = Run [[Lit ''ffmpeg''], [Lit ''-y''], [Lit ''-f''], [Lit ''lavfi''], [Lit ''-i''],
              [Lit ''color=c=black:s='', Dec 1920, Lit ''x'', Dec 1080,
               Lit '':d='', Flt 2, Lit '':r=24''],
              [Lit ''-c:v''], [Lit ''libx264''], [Lit ''-preset''], [Lit ''fast''],
              [Lit ''-crf''], [Lit ''23''], [Lit ''tmp/black_outro.mp4'']]
   \<and> (voiceover_duration (one_shot 12) - 11) + 0.5 \<noteq> (2::real)"
  by (simp add: run_defs cmd_defs)

text \<open>
  C2, amended. When the clips are prepared, the concatenation succeeds, the probed
  duration \<open>video_dur\<close> of the concatenated video is below the voiceover duration and the
  synthesis returns a path, then the synthesis has run, in this order, the size probe,
  the black fill, the fade and the splice. The black fill is asked for
  \<open>voiceover_duration - video_dur + 1\<close> seconds, the shortfall plus one second. The splice is
  cut with \<^verbatim>\<open>-t\<close> to \<open>voiceover_duration + 0.5\<close>. The returned path, \<^verbatim>\<open>video_with_outro.mp4\<close>
  in the temp directory, is the video \<open>assemble\<close> hands to the mixer, and the video
  duration \<open>assemble\<close> records and reports is the constant \<open>voiceover_duration + 0.5\<close>. The
  source does not measure the spliced file, and it does not inspect the result of the
  black-fill command; nothing is stated here about the length the file really has.
\<close>

theorem outro_requests_and_records:
  assumes "tln1 = prepared_timeline E temp_dir h tln 2.5"
      and "h1 = prepared_history E temp_dir h tln 2.5"
      and "concat_path = path_join temp_dir ''timeline_concat.mp4''"
      and "concatenate_clips E temp_dir h1 tln1 concat_path = (True, h2)"
      and "video_dur = (case probe_duration E h2 (duration_probe_cmd concat_path) of
                          Some d \<Rightarrow> d | None \<Rightarrow> 0)"
      and "video_dur < voiceover_duration tln"
      and "h3 = h2 @ [Run (duration_probe_cmd concat_path)]"
      and "cta = (if segments tln1 = [] then [] else voiceover_text (last (segments tln1)))"
      and "fst (create_outro_sequence E temp_dir h3 concat_path video_dur
                  (voiceover_duration tln + 0.5) cta) = Some p"
      and "wh = (case probe_size E h3 (size_probe_cmd concat_path) of
                   Some d \<Rightarrow> d | None \<Rightarrow> (1280, 720))"
      and "black_c = black_cmd (fst wh) (snd wh) (voiceover_duration tln + 0.5 - video_dur)
                       (path_join temp_dir ''black_outro.mp4'')"
      and "splice_c = splice_cmd (path_join temp_dir ''outro_concat.txt'')
                        (voiceover_duration tln + 0.5) p"
      and "h4 = h3 @ [Run (size_probe_cmd concat_path),
                      Run black_c,
                      Run (fade_cmd concat_path (max 0 (video_dur - 1.5))
                             (path_join temp_dir ''video_faded.mp4'')),
                      WriteList (path_join temp_dir ''outro_concat.txt'')
                        [absolute E (path_join temp_dir ''video_faded.mp4''),
                         absolute E (path_join temp_dir ''black_outro.mp4'')],
                      Run splice_c]"
      and "mx = mix_final_audio E h4 p (voiceover_path tln) (music_path tln) output_path vol"
  shows "snd (create_outro_sequence E temp_dir h3 concat_path video_dur
                (voiceover_duration tln + 0.5) cta) = h4
         \<and> black_c ! 5 = [Lit ''color=c=black:s='', Dec (fst wh), Lit ''x'', Dec (snd wh),
                         Lit '':d='', Flt (voiceover_duration tln - video_dur + 1),
                         Lit '':r=24'']
         \<and> take 2 (drop 14 splice_c) = [lit ''-t'', str_float (voiceover_duration tln + 0.5)]
         \<and> p = path_join temp_dir ''video_with_outro.mp4''
         \<and> outro_step E temp_dir h3 tln1 concat_path video_dur
           = (p, voiceover_duration tln + 0.5, h4)
         \<and> assemble E temp_dir h tln output_path vol
           = (if fst mx
              then Assembled output_path (voiceover_duration tln) (voiceover_duration tln + 0.5)
              else Failed ''Failed to mix audio'', snd mx)"
proof -
  have tr: "snd (create_outro_sequence E temp_dir h3 concat_path video_dur
                   (voiceover_duration tln + 0.5) cta) = h4
            \<and> p = path_join temp_dir ''video_with_outro.mp4''"
    using assms(9) unfolding assms(10,11,12,13)
    by (simp add: create_outro_sequence_def Let_def split: if_splits)
  have b: "black_c ! 5 = [Lit ''color=c=black:s='', Dec (fst wh), Lit ''x'', Dec (snd wh),
                          Lit '':d='', Flt (voiceover_duration tln - video_dur + 1),
                          Lit '':r=24'']"
    by (simp add: assms(11) black_cmd_def)
  have s: "take 2 (drop 14 splice_c) = [lit ''-t'', str_float (voiceover_duration tln + 0.5)]"
    by (simp add: assms(12) splice_cmd_def)
  have vd: "voiceover_duration tln1 = voiceover_duration tln"
    by (simp add: assms(1) prepared_timeline_fields)
  have lt1: "video_dur < voiceover_duration tln1"
    using assms(6) by (simp only: vd)
  have ok1: "fst (create_outro_sequence E temp_dir h3 concat_path video_dur
                    (voiceover_duration tln1 + 0.5)
                    (if segments tln1 = [] then [] else voiceover_text (last (segments tln1))))
             = Some p"
    using assms(9) by (simp only: vd assms(8))
  have "outro_step E temp_dir h3 tln1 concat_path video_dur
          = (p, voiceover_duration tln1 + 0.5,
             snd (create_outro_sequence E temp_dir h3 concat_path video_dur
                    (voiceover_duration tln1 + 0.5)
                    (if segments tln1 = [] then []
                     else voiceover_text (last (segments tln1)))))"
    by (rule outro_step_some [OF lt1 ok1])
  then have st: "outro_step E temp_dir h3 tln1 concat_path video_dur
              = (p, voiceover_duration tln + 0.5, h4)"
    using tr by (simp only: vd assms(8) [symmetric])
  have prep: "prepare_timeline_clips E temp_dir h tln 2.5 = (True, tln1, h1)"
    using assms(1,2)
    by (simp add: prepared_timeline_def prepared_history_def prepare_timeline_clips_def Let_def)
  have st': "outro_step E temp_dir (h2 @ [Run (duration_probe_cmd concat_path)]) tln1
               concat_path video_dur = (p, voiceover_duration tln + 0.5, h4)"
    using st by (simp add: assms(7))
  have asm: "assemble E temp_dir h tln output_path vol
           = (if fst mx
              then Assembled output_path (voiceover_duration tln) (voiceover_duration tln + 0.5)
              else Failed ''Failed to mix audio'', snd mx)"
    unfolding assemble_def prep Let_def
    using assms(3,4,5,14) st'
    by (simp add: assms(1) prepared_timeline_fields)
  show ?thesis
    using tr b s st asm by blast
qed

theorem outro_requests_and_records_witness:
  "(11::real) < voiceover_duration (one_shot 12)
   \<and> fst (assemble (world (Some 11) never) ''tmp'' [] (one_shot 12) ''out.mp4'' 0.15)
       = Assembled ''out.mp4'' 12 12.5
   \<and> last (snd (assemble (world (Some 11) never) ''tmp'' [] (one_shot 12) ''out.mp4'' 0.15))
       = Run (mix_voice_cmd ''tmp/video_with_outro.mp4'' (Some ''vo.mp3'') ''out.mp4'')
   \<and> black_cmd 1920 1080 (voiceover_duration (one_shot 12) + 0.5 - 11) ''tmp/black_outro.mp4'' ! 5
       = [Lit ''color=c=black:s='', Dec 1920, Lit ''x'', Dec 1080, Lit '':d='', Flt 2, Lit '':r=24'']"
proof -
  let ?E = "world (Some 11) never"
  let ?c = "path_join ''tmp'' ''timeline_concat.mp4''"
  let ?cc = "concatenate_clips ?E ''tmp'' (prepared_history ?E ''tmp'' [] (one_shot 12) 2.5)
               (prepared_timeline ?E ''tmp'' [] (one_shot 12) 2.5) ?c"
  let ?h3 = "snd ?cc @ [Run (duration_probe_cmd ?c)]"
  let ?cta = "if segments (prepared_timeline ?E ''tmp'' [] (one_shot 12) 2.5) = [] then []
              else voiceover_text (last (segments (prepared_timeline ?E ''tmp'' [] (one_shot 12) 2.5)))"
  have c: "?cc = (True, snd ?cc)"
    by (simp add: concatenate_clips_def world_def never_def Let_def)
  have v: "(11::real) = (case probe_duration ?E (snd ?cc) (duration_probe_cmd ?c) of
                          Some d \<Rightarrow> d | None \<Rightarrow> 0)"
    by (simp add: world_def)
  have lt: "(11::real) < voiceover_duration (one_shot 12)"
    by (simp add: one_shot_def build_timeline_def)
  have ok: "fst (create_outro_sequence ?E ''tmp'' ?h3 ?c 11
                   (voiceover_duration (one_shot 12) + 0.5) ?cta)
            = Some ''tmp/video_with_outro.mp4''"
    by (simp add: create_outro_sequence_def world_def never_def Let_def path_join_def)
  from outro_requests_and_records
         [OF refl refl refl c v lt refl refl ok refl refl refl refl refl, of "''out.mp4''" "0.15"]
  have r: "black_cmd (fst (case probe_size ?E ?h3 (size_probe_cmd ?c) of
                             Some d \<Rightarrow> d | None \<Rightarrow> (1280, 720)))
                     (snd (case probe_size ?E ?h3 (size_probe_cmd ?c) of
                             Some d \<Rightarrow> d | None \<Rightarrow> (1280, 720)))
                     (voiceover_duration (one_shot 12) + 0.5 - 11)
                     (path_join ''tmp'' ''black_outro.mp4'') ! 5
             = [Lit ''color=c=black:s='',
                Dec (fst (case probe_size ?E ?h3 (size_probe_cmd ?c) of
                            Some d \<Rightarrow> d | None \<Rightarrow> (1280, 720))),
                Lit ''x'',
                Dec (snd (case probe_size ?E ?h3 (size_probe_cmd ?c) of
                            Some d \<Rightarrow> d | None \<Rightarrow> (1280, 720))),
                Lit '':d='', Flt (voiceover_duration (one_shot 12) - 11 + 1), Lit '':r=24'']"
      and a: "fst (assemble ?E ''tmp'' [] (one_shot 12) ''out.mp4'' 0.15)
                = Assembled ''out.mp4'' 12 12.5"
      and m: "last (snd (assemble ?E ''tmp'' [] (one_shot 12) ''out.mp4'' 0.15))
                = Run (mix_voice_cmd ''tmp/video_with_outro.mp4'' (Some ''vo.mp3'') ''out.mp4'')"
    by (simp_all add: mix_final_audio_def mix_cmd_def world_def never_def Let_def one_shot_def
          build_timeline_def)
  from r have "black_cmd 1920 1080 (voiceover_duration (one_shot 12) + 0.5 - 11)
                 ''tmp/black_outro.mp4'' ! 5
       = [Lit ''color=c=black:s='', Dec 1920, Lit ''x'', Dec 1080, Lit '':d='', Flt 2, Lit '':r=24'']"
    by (simp add: world_def path_join_def one_shot_def build_timeline_def)
  with lt a m show ?thesis
    by blast
qed

text \<open>
  The two failures that the synthesis does check. A fade that exits with a non-zero
  status makes the synthesis return nothing, and so does a splice that exits with a
  non-zero status or leaves no output file; step 2.5 then hands on the concatenated video
  and its probed duration.
\<close>

lemma fade_failure_returns_none:
  assumes "wh = (case probe_size E h (size_probe_cmd video) of
                   Some d \<Rightarrow> d | None \<Rightarrow> (1280, 720))"
      and "returncode E
             (h @ [Run (size_probe_cmd video),
                   Run (black_cmd (fst wh) (snd wh) (target - cur)
                          (path_join temp_dir ''black_outro.mp4''))])
             (fade_cmd video (max 0 (cur - 1.5)) (path_join temp_dir ''video_faded.mp4'')) \<noteq> 0"
  shows "fst (create_outro_sequence E temp_dir h video cur target cta) = None"
  using assms(2) unfolding assms(1)
  by (simp add: create_outro_sequence_def Let_def)

lemma splice_failure_returns_none:
  assumes "wh = (case probe_size E h (size_probe_cmd video) of
                   Some d \<Rightarrow> d | None \<Rightarrow> (1280, 720))"
      and "h4 = h @ [Run (size_probe_cmd video),
                     Run (black_cmd (fst wh) (snd wh) (target - cur)
                            (path_join temp_dir ''black_outro.mp4'')),
                     Run (fade_cmd video (max 0 (cur - 1.5))
                            (path_join temp_dir ''video_faded.mp4'')),
                     WriteList (path_join temp_dir ''outro_concat.txt'')
                       [absolute E (path_join temp_dir ''video_faded.mp4''),
                        absolute E (path_join temp_dir ''black_outro.mp4'')]]"
      and "splice_c = splice_cmd (path_join temp_dir ''outro_concat.txt'') target
                        (path_join temp_dir ''video_with_outro.mp4'')"
      and "returncode E h4 splice_c \<noteq> 0
           \<or> \<not> path_exists E (h4 @ [Run splice_c]) (path_join temp_dir ''video_with_outro.mp4'')"
  shows "fst (create_outro_sequence E temp_dir h video cur target cta) = None"
  using assms(4) unfolding assms(1,2,3)
  by (auto simp add: create_outro_sequence_def Let_def)

lemma outro_none_falls_back:
  assumes "fst (create_outro_sequence E temp_dir h concat_path video_dur
                  (voiceover_duration tln + 0.5)
                  (if segments tln = [] then [] else voiceover_text (last (segments tln))))
           = None"
  shows "fst (outro_step E temp_dir h tln concat_path video_dur) = concat_path
       \<and> fst (snd (outro_step E temp_dir h tln concat_path video_dur)) = video_dur"
  using assms by (simp add: outro_step_def Let_def)

text \<open>
  C7 at the failing input. The concatenated video is one second short of a twelve second
  voiceover, and the black-fill command exits with status 1 while the fade and the splice
  exit with status 0. The synthesis still returns the spliced file, and \<open>assemble\<close>
  mixes the audio onto that file, not onto the concatenated video as the claim requires;
  it reports success with a video duration of 12.5 seconds.
\<close>

theorem black_fill_failure_undetected:
  "returncode (world (Some 11) is_black_fill)
     [Run (size_probe_cmd ''tmp/timeline_concat.mp4'')]
     (black_cmd 1920 1080 1.5 ''tmp/black_outro.mp4'') = 1
   \<and> fst (create_outro_sequence (world (Some 11) is_black_fill) ''tmp'' []
            ''tmp/timeline_concat.mp4'' 11 12.5 ''hello'')
       = Some ''tmp/video_with_outro.mp4''
   \<and> fst (assemble (world (Some 11) is_black_fill) ''tmp'' [] (one_shot 12) ''out.mp4'' 0.15)
       = Assembled ''out.mp4'' 12 12.5
   \<and> last (snd (assemble (world (Some 11) is_black_fill) ''tmp'' [] (one_shot 12) ''out.mp4'' 0.15))
       = Run (mix_voice_cmd ''tmp/video_with_outro.mp4'' (Some ''vo.mp3'') ''out.mp4'')"
  by (simp add: run_defs cmd_defs replicate_small)

section \<open>Audio Mixer\<close>

lemma render_mix_graph: "render_graph (mix_graph vol) = mix_filter_complex vol"
  by (simp add: render_graph_def mix_graph_def render_chain_def render_filt_def render_opt_def
        render_val_def mix_filter_complex_def)

lemma render_mixer_graph: "render_graph (mixer_graph cfg) = mixer_filter_complex cfg"
  by (simp add: render_graph_def mixer_graph_def render_chain_def render_filt_def render_opt_def
        render_val_def mixer_filter_complex_def)

lemma mix_voice_cmd_options:
  assumes "video \<notin> option_names" and "output_path \<notin> option_names"
      and "vo \<notin> Some ` option_names"
  shows "\<forall>f \<in> option_names. \<not> has_flag f (mix_voice_cmd video vo output_path)"
  using assms
  by (cases vo)
     (auto simp add: option_names_def has_flag_def mix_voice_cmd_def lit_def str_path_def
        str_path_opt_def)

lemma mix_music_cmd_options:
  assumes "video \<notin> option_names" and "output_path \<notin> option_names"
      and "vo \<notin> Some ` option_names" and "music \<notin> option_names"
  shows "\<forall>f \<in> option_names - {''-filter_complex''}.
           \<not> has_flag f (mix_music_cmd video vo music output_path vol)"
  using assms
  by (cases vo)
     (auto simp add: option_names_def has_flag_def mix_music_cmd_def lit_def str_path_def
        str_path_opt_def mix_filter_complex_def)

text \<open>
  C6, as stated, fails. Without music the command is the plain mux: it has no
  \<^verbatim>\<open>-filter_complex\<close>, hence no \<^verbatim>\<open>duration=first\<close>, and neither \<^verbatim>\<open>-shortest\<close> nor
  \<^verbatim>\<open>-t\<close>. With music, \<^verbatim>\<open>duration=first\<close> is an option of \<^verbatim>\<open>amix\<close>, whose first input
  pad \<^verbatim>\<open>[vo]\<close> is made from \<^verbatim>\<open>[1:a]\<close>, the audio of input 1, the voiceover; the video is
  input 0. Again there is neither \<^verbatim>\<open>-shortest\<close> nor \<^verbatim>\<open>-t\<close>. So in neither case does the
  command make the video the governing stream.
\<close>

theorem mix_duration_not_bound_to_video:
  "mix_cmd (world None never) [] ''video.mp4'' (Some ''vo.mp3'') None ''out.mp4'' 0.15
     = mix_voice_cmd ''video.mp4'' (Some ''vo.mp3'') ''out.mp4''
   \<and> \<not> has_flag ''-filter_complex'' (mix_voice_cmd ''video.mp4'' (Some ''vo.mp3'') ''out.mp4'')
   \<and> \<not> has_flag ''-shortest'' (mix_voice_cmd ''video.mp4'' (Some ''vo.mp3'') ''out.mp4'')
   \<and> \<not> has_flag ''-t'' (mix_voice_cmd ''video.mp4'' (Some ''vo.mp3'') ''out.mp4'')
   \<and> mix_cmd (world None never) [] ''video.mp4'' (Some ''vo.mp3'') (Some ''music.mp3'') ''out.mp4'' 0.15
     = mix_music_cmd ''video.mp4'' (Some ''vo.mp3'') ''music.mp3'' ''out.mp4'' 0.15
   \<and> \<not> has_flag ''-shortest''
         (mix_music_cmd ''video.mp4'' (Some ''vo.mp3'') ''music.mp3'' ''out.mp4'' 0.15)
   \<and> \<not> has_flag ''-t''
         (mix_music_cmd ''video.mp4'' (Some ''vo.mp3'') ''music.mp3'' ''out.mp4'' 0.15)
   \<and> take 8 (drop 2 (mix_music_cmd ''video.mp4'' (Some ''vo.mp3'') ''music.mp3'' ''out.mp4'' 0.15))
     = [lit ''-i'', lit ''video.mp4'', lit ''-i'', lit ''vo.mp3'', lit ''-i'', lit ''music.mp3'',
        lit ''-filter_complex'', render_graph (mix_graph 0.15)]
   \<and> producer (mix_graph 0.15) ''audio''
     = Some (Chain [''vo'', ''music'']
               [Filt ''amix'' [(''inputs'', Txt ''2''), (''duration'', Txt ''first''),
                               (''normalize'', Txt ''0'')]] ''audio'')
   \<and> producer (mix_graph 0.15) ''vo''
     = Some (Chain [''1:a''] [Filt ''aresample'' [([], Txt ''48000'')]] ''vo'')"
proof -
  have p: "producer (mix_graph 0.15) ''audio''
             = Some (Chain [''vo'', ''music'']
                       [Filt ''amix'' [(''inputs'', Txt ''2''), (''duration'', Txt ''first''),
                                       (''normalize'', Txt ''0'')]] ''audio'')"
          "producer (mix_graph 0.15) ''vo''
             = Some (Chain [''1:a''] [Filt ''aresample'' [([], Txt ''48000'')]] ''vo'')"
    by (simp_all add: producer_def mix_graph_def)
  have c: "mix_cmd (world None never) [] ''video.mp4'' (Some ''vo.mp3'') None ''out.mp4'' 0.15
             = mix_voice_cmd ''video.mp4'' (Some ''vo.mp3'') ''out.mp4''"
          "mix_cmd (world None never) [] ''video.mp4'' (Some ''vo.mp3'') (Some ''music.mp3'')
             ''out.mp4'' 0.15
             = mix_music_cmd ''video.mp4'' (Some ''vo.mp3'') ''music.mp3'' ''out.mp4'' 0.15"
    by (simp_all add: mix_cmd_def world_def)
  have v: "\<not> has_flag ''-filter_complex'' (mix_voice_cmd ''video.mp4'' (Some ''vo.mp3'') ''out.mp4'')"
          "\<not> has_flag ''-shortest'' (mix_voice_cmd ''video.mp4'' (Some ''vo.mp3'') ''out.mp4'')"
          "\<not> has_flag ''-t'' (mix_voice_cmd ''video.mp4'' (Some ''vo.mp3'') ''out.mp4'')"
    by (simp_all add: has_flag_def mix_voice_cmd_def lit_def str_path_def str_path_opt_def)
  have m: "\<not> has_flag ''-shortest''
             (mix_music_cmd ''video.mp4'' (Some ''vo.mp3'') ''music.mp3'' ''out.mp4'' 0.15)"
          "\<not> has_flag ''-t''
             (mix_music_cmd ''video.mp4'' (Some ''vo.mp3'') ''music.mp3'' ''out.mp4'' 0.15)"
    by (simp_all add: has_flag_def mix_music_cmd_def lit_def str_path_def str_path_opt_def
          mix_filter_complex_def)
  have t: "take 8 (drop 2 (mix_music_cmd ''video.mp4'' (Some ''vo.mp3'') ''music.mp3'' ''out.mp4'' 0.15))
             = [lit ''-i'', lit ''video.mp4'', lit ''-i'', lit ''vo.mp3'', lit ''-i'', lit ''music.mp3'',
                lit ''-filter_complex'', render_graph (mix_graph 0.15)]"
    unfolding render_mix_graph
    by (simp add: mix_music_cmd_def lit_def str_path_def str_path_opt_def)
  show ?thesis
    using p c v m t by blast
qed

text \<open>
  C6, amended. For every mix invocation whose paths are not themselves spelled like
  options: the command takes the video as input 0 and the voiceover as input 1, and it
  has no option that bounds the length of the output (\<^verbatim>\<open>-shortest\<close>, \<^verbatim>\<open>-t\<close>, \<^verbatim>\<open>-to\<close>)
  and no \<^verbatim>\<open>-af\<close>. Without music (none given, or the file does not exist) it maps
  \<^verbatim>\<open>0:v\<close> and \<^verbatim>\<open>1:a\<close> and has no filter graph. With music it maps \<^verbatim>\<open>0:v\<close> and the pad
  \<^verbatim>\<open>[audio]\<close> of the filter graph, in which \<^verbatim>\<open>duration=first\<close> belongs to \<^verbatim>\<open>amix\<close> and the
  first input of \<^verbatim>\<open>amix\<close> is the resampled voiceover: it is the voiceover, not the
  video, that \<^verbatim>\<open>duration=first\<close> makes govern the mixed audio, so that the music cannot
  outlast the voiceover.
\<close>

theorem mix_duration_options:
  assumes "video \<notin> option_names" and "output_path \<notin> option_names"
      and "vo \<notin> Some ` option_names" and "mo \<notin> Some ` option_names"
      and "cmd = mix_cmd E h video vo mo output_path vol"
  shows "(\<forall>f \<in> {''-shortest'', ''-t'', ''-to'', ''-af''}. \<not> has_flag f cmd)
         \<and> take 4 (drop 2 cmd) = [lit ''-i'', str_path video, lit ''-i'', str_path_opt vo]
         \<and> ((mo = None \<or> (\<exists>music. mo = Some music \<and> \<not> path_exists E h music))
              \<and> cmd = mix_voice_cmd video vo output_path
              \<and> take 4 (drop 6 cmd) = [lit ''-map'', lit ''0:v'', lit ''-map'', lit ''1:a'']
              \<and> \<not> has_flag ''-filter_complex'' cmd
            \<or> (\<exists>music. mo = Some music \<and> path_exists E h music
                  \<and> cmd = mix_music_cmd video vo music output_path vol
                  \<and> take 8 (drop 6 cmd)
                      = [lit ''-i'', str_path music,
                         lit ''-filter_complex'', render_graph (mix_graph vol),
                         lit ''-map'', lit ''0:v'', lit ''-map'', lit ''[audio]'']))
         \<and> producer (mix_graph vol) ''audio''
           = Some (Chain [''vo'', ''music'']
                     [Filt ''amix'' [(''inputs'', Txt ''2''), (''duration'', Txt ''first''),
                                     (''normalize'', Txt ''0'')]] ''audio'')
         \<and> producer (mix_graph vol) ''vo''
           = Some (Chain [''1:a''] [Filt ''aresample'' [([], Txt ''48000'')]] ''vo'')"
proof -
  have g: "producer (mix_graph vol) ''audio''
           = Some (Chain [''vo'', ''music'']
                     [Filt ''amix'' [(''inputs'', Txt ''2''), (''duration'', Txt ''first''),
                                     (''normalize'', Txt ''0'')]] ''audio'')
         \<and> producer (mix_graph vol) ''vo''
           = Some (Chain [''1:a''] [Filt ''aresample'' [([], Txt ''48000'')]] ''vo'')"
    by (simp add: producer_def mix_graph_def)
  show ?thesis
  proof (cases "\<exists>music. mo = Some music \<and> path_exists E h music")
    case True
    then obtain music where m: "mo = Some music" "path_exists E h music"
      by blast
    have c: "cmd = mix_music_cmd video vo music output_path vol"
      by (simp add: assms(5) mix_cmd_def m)
    from assms(4) m have "music \<notin> option_names"
      by auto
    from mix_music_cmd_options [OF assms(1,2,3) this, of vol]
    have o: "\<forall>f \<in> {''-shortest'', ''-t'', ''-to'', ''-af''}. \<not> has_flag f cmd"
      by (simp add: c option_names_def)
    have t: "take 4 (drop 2 cmd) = [lit ''-i'', str_path video, lit ''-i'', str_path_opt vo]"
            "take 8 (drop 6 cmd)
               = [lit ''-i'', str_path music,
                  lit ''-filter_complex'', render_graph (mix_graph vol),
                  lit ''-map'', lit ''0:v'', lit ''-map'', lit ''[audio]'']"
      by (simp_all add: c mix_music_cmd_def render_mix_graph)
    show ?thesis
      using g o t c m by blast
  next
    case False
    then have n: "mo = None \<or> (\<exists>music. mo = Some music \<and> \<not> path_exists E h music)"
      by (cases mo) auto
    have c: "cmd = mix_voice_cmd video vo output_path"
      using False by (cases mo) (simp_all add: assms(5) mix_cmd_def)
    from mix_voice_cmd_options [OF assms(1,2,3)]
    have o: "\<forall>f \<in> {''-shortest'', ''-t'', ''-to'', ''-af''}. \<not> has_flag f cmd"
            "\<not> has_flag ''-filter_complex'' cmd"
      by (simp_all add: c option_names_def)
    have t: "take 4 (drop 2 cmd) = [lit ''-i'', str_path video, lit ''-i'', str_path_opt vo]"
            "take 4 (drop 6 cmd) = [lit ''-map'', lit ''0:v'', lit ''-map'', lit ''1:a'']"
      by (simp_all add: c mix_voice_cmd_def)
    show ?thesis
      using g o t c n by blast
  qed
qed

theorem mix_duration_options_witness:
  "''video.mp4'' \<notin> option_names \<and> ''out.mp4'' \<notin> option_names
   \<and> Some ''vo.mp3'' \<notin> Some ` option_names \<and> Some ''music.mp3'' \<notin> Some ` option_names
   \<and> \<not> has_flag ''-shortest''
         (mix_cmd (world None never) [] ''video.mp4'' (Some ''vo.mp3'') (Some ''music.mp3'')
            ''out.mp4'' 0.15)
   \<and> take 4 (drop 2 (mix_cmd (world None never) [] ''video.mp4'' (Some ''vo.mp3'')
                        (Some ''music.mp3'') ''out.mp4'' 0.15))
     = [lit ''-i'', lit ''video.mp4'', lit ''-i'', lit ''vo.mp3'']"
proof -
  have a: "''video.mp4'' \<notin> option_names" "''out.mp4'' \<notin> option_names"
          "Some ''vo.mp3'' \<notin> Some ` option_names" "Some ''music.mp3'' \<notin> Some ` option_names"
    by (simp_all add: option_names_def)
  from mix_duration_options [OF a refl, of "world None never" "[]" "0.15"]
  show ?thesis
    using a by (simp add: str_path_def str_path_opt_def lit_def)
qed

text \<open>
  C8, as stated, fails for the mixer of the Assembler. With music present,
  \<open>mix_final_audio\<close> runs the command with the filter graph below; the audio that is
  mapped is the pad \<^verbatim>\<open>[audio]\<close>, the chain that produces it ends with \<^verbatim>\<open>amix\<close>, and the
  command has no \<^verbatim>\<open>-af\<close>: nothing is applied after the mix. The mixer of
  \<^verbatim>\<open>audio_mixer.py\<close> does put \<^verbatim>\<open>volume=1.5\<close> after \<^verbatim>\<open>amix\<close>.
\<close>

theorem mix_final_audio_no_post_mix_gain:
  "mix_cmd (world None never) [] ''video.mp4'' (Some ''vo.mp3'') (Some ''music.mp3'') ''out.mp4'' 0.15
     = mix_music_cmd ''video.mp4'' (Some ''vo.mp3'') ''music.mp3'' ''out.mp4'' 0.15
   \<and> take 6 (drop 8 (mix_music_cmd ''video.mp4'' (Some ''vo.mp3'') ''music.mp3'' ''out.mp4'' 0.15))
     = [lit ''-filter_complex'', render_graph (mix_graph 0.15),
        lit ''-map'', lit ''0:v'', lit ''-map'', lit ''[audio]'']
   \<and> producer (mix_graph 0.15) ''audio'' = Some (last (mix_graph 0.15))
   \<and> map filt_name (chain_filts (last (mix_graph 0.15))) = [''amix'']
   \<and> filters_after ''amix'' (last (mix_graph 0.15)) = []
   \<and> \<not> has_flag ''-af''
         (mix_music_cmd ''video.mp4'' (Some ''vo.mp3'') ''music.mp3'' ''out.mp4'' 0.15)
   \<and> filters_after ''amix'' (last (mixer_graph default_audio_mix_config))
     = [Filt ''volume'' [([], Txt ''1.5'')]]"
proof -
  have c: "mix_cmd (world None never) [] ''video.mp4'' (Some ''vo.mp3'') (Some ''music.mp3'')
             ''out.mp4'' 0.15
             = mix_music_cmd ''video.mp4'' (Some ''vo.mp3'') ''music.mp3'' ''out.mp4'' 0.15"
    by (simp add: mix_cmd_def world_def)
  have t: "take 6 (drop 8 (mix_music_cmd ''video.mp4'' (Some ''vo.mp3'') ''music.mp3'' ''out.mp4'' 0.15))
             = [lit ''-filter_complex'', render_graph (mix_graph 0.15),
                lit ''-map'', lit ''0:v'', lit ''-map'', lit ''[audio]'']"
    unfolding render_mix_graph
    by (simp add: mix_music_cmd_def)
  have g: "producer (mix_graph 0.15) ''audio'' = Some (last (mix_graph 0.15))"
          "map filt_name (chain_filts (last (mix_graph 0.15))) = [''amix'']"
          "filters_after ''amix'' (last (mix_graph 0.15)) = []"
    by (simp_all add: producer_def mix_graph_def filters_after_def)
  have f: "\<not> has_flag ''-af''
             (mix_music_cmd ''video.mp4'' (Some ''vo.mp3'') ''music.mp3'' ''out.mp4'' 0.15)"
    by (simp add: has_flag_def mix_music_cmd_def lit_def str_path_def str_path_opt_def
          mix_filter_complex_def)
  have x: "filters_after ''amix'' (last (mixer_graph default_audio_mix_config))
             = [Filt ''volume'' [([], Txt ''1.5'')]]"
    by (simp add: mixer_graph_def filters_after_def)
  show ?thesis
    using c t g f x by blast
qed

text \<open>
  C8, amended. The repository has two mixers with music. The command of
  \<open>mix_final_audio\<close> carries a filter graph that resamples the voiceover (input 1) and
  the music (input 2) to 48000 Hz, attenuates the music by \<open>music_volume\<close> (default 0.15),
  mixes the two with \<^verbatim>\<open>amix\<close> and \<^verbatim>\<open>normalize=0\<close>, and applies nothing after the mix.
  \<^verbatim>\<open>AudioMixer.mix_voice_and_music\<close> resamples both tracks to the configured sample rate
  with two commands of their own before the mixing command; its mixing command scales
  the voice by \<open>voice_volume\<close> and the music by \<open>music_volume\<close> (default 0.15), mixes with
  \<^verbatim>\<open>amix\<close> and \<^verbatim>\<open>normalize=0\<close>, applies the fixed gain \<^verbatim>\<open>volume=1.5\<close> after the mix, and
  does not resample inside its filter graph. Both graphs are, character by character, the
  texts the source builds.
\<close>

theorem mixers_filter_structure:
  "take 6 (drop 8 (mix_music_cmd video vo music output_path vol))
     = [lit ''-filter_complex'', render_graph (mix_graph vol),
        lit ''-map'', lit ''0:v'', lit ''-map'', lit ''[audio]'']
   \<and> render_graph (mix_graph vol) = mix_filter_complex vol
   \<and> take 6 (drop 2 (mix_music_cmd video vo music output_path vol))
     = [lit ''-i'', str_path video, lit ''-i'', str_path_opt vo, lit ''-i'', str_path music]
   \<and> producer (mix_graph vol) ''vo''
     = Some (Chain [''1:a''] [Filt ''aresample'' [([], Txt ''48000'')]] ''vo'')
   \<and> producer (mix_graph vol) ''music''
     = Some (Chain [''2:a''] [Filt ''aresample'' [([], Txt ''48000'')],
                              Filt ''volume'' [([], Val vol)]] ''music'')
   \<and> producer (mix_graph vol) ''audio''
     = Some (Chain [''vo'', ''music'']
               [Filt ''amix'' [(''inputs'', Txt ''2''), (''duration'', Txt ''first''),
                               (''normalize'', Txt ''0'')]] ''audio'')
   \<and> filters_after ''amix'' (last (mix_graph vol)) = []
   \<and> default_music_volume = 0.15
   \<and> mix_voice_and_music_cmds cfg channels temp_dir video voice music output_path
     = [voice_norm_cmd cfg channels voice (path_join temp_dir ''voice_normalized.wav''),
        music_norm_cmd cfg music (path_join temp_dir ''music_normalized.wav''),
        mixer_mix_cmd cfg video (path_join temp_dir ''voice_normalized.wav'')
          (path_join temp_dir ''music_normalized.wav'') output_path]
   \<and> take 2 (drop 4 (voice_norm_cmd cfg channels voice voice_norm))
     = [lit ''-af'', [Lit ''aresample='', Dec (target_sample_rate cfg)]
                     @ (if channels = 1 then [Lit '',pan=stereo|c0=c0|c1=c0''] else [])]
   \<and> take 2 (drop 4 (music_norm_cmd cfg music music_norm))
     = [lit ''-af'', [Lit ''aresample='', Dec (target_sample_rate cfg)]]
   \<and> take 6 (drop 8 (mixer_mix_cmd cfg video voice_norm music_norm output_path))
     = [lit ''-filter_complex'', render_graph (mixer_graph cfg),
        lit ''-map'', lit ''0:v'', lit ''-map'', lit ''[out]'']
   \<and> render_graph (mixer_graph cfg) = mixer_filter_complex cfg
   \<and> producer (mixer_graph cfg) ''out''
     = Some (Chain [''v'', ''m'']
               [Filt ''amix'' [(''inputs'', Txt ''2''), (''duration'', Txt ''first''),
                               (''dropout_transition'', Txt ''0''), (''normalize'', Txt ''0'')],
                Filt ''volume'' [([], Txt ''1.5'')]] ''out'')
   \<and> producer (mixer_graph cfg) ''m''
     = Some (Chain [''2:a''] [Filt ''volume'' [([], Val (music_volume cfg))]] ''m'')
   \<and> filters_after ''amix'' (last (mixer_graph cfg)) = [Filt ''volume'' [([], Txt ''1.5'')]]
   \<and> ''aresample'' \<notin> set (graph_filter_names (mixer_graph cfg))
   \<and> music_volume default_audio_mix_config = 0.15
   \<and> target_sample_rate default_audio_mix_config = 48000"
proof -
  have a: "take 6 (drop 8 (mix_music_cmd video vo music output_path vol))
             = [lit ''-filter_complex'', render_graph (mix_graph vol),
                lit ''-map'', lit ''0:v'', lit ''-map'', lit ''[audio]'']"
          "take 6 (drop 2 (mix_music_cmd video vo music output_path vol))
             = [lit ''-i'', str_path video, lit ''-i'', str_path_opt vo, lit ''-i'', str_path music]"
    by (simp_all add: mix_music_cmd_def render_mix_graph)
  have b: "producer (mix_graph vol) ''vo''
             = Some (Chain [''1:a''] [Filt ''aresample'' [([], Txt ''48000'')]] ''vo'')"
          "producer (mix_graph vol) ''music''
             = Some (Chain [''2:a''] [Filt ''aresample'' [([], Txt ''48000'')],
                                      Filt ''volume'' [([], Val vol)]] ''music'')"
          "producer (mix_graph vol) ''audio''
             = Some (Chain [''vo'', ''music'']
                       [Filt ''amix'' [(''inputs'', Txt ''2''), (''duration'', Txt ''first''),
                                       (''normalize'', Txt ''0'')]] ''audio'')"
          "filters_after ''amix'' (last (mix_graph vol)) = []"
    by (simp_all add: producer_def mix_graph_def filters_after_def)
  have c: "mix_voice_and_music_cmds cfg channels temp_dir video voice music output_path
             = [voice_norm_cmd cfg channels voice (path_join temp_dir ''voice_normalized.wav''),
                music_norm_cmd cfg music (path_join temp_dir ''music_normalized.wav''),
                mixer_mix_cmd cfg video (path_join temp_dir ''voice_normalized.wav'')
                  (path_join temp_dir ''music_normalized.wav'') output_path]"
    by (simp add: mix_voice_and_music_cmds_def Let_def)
  have d: "take 2 (drop 4 (voice_norm_cmd cfg channels voice voice_norm))
             = [lit ''-af'', [Lit ''aresample='', Dec (target_sample_rate cfg)]
                             @ (if channels = 1 then [Lit '',pan=stereo|c0=c0|c1=c0''] else [])]"
          "take 2 (drop 4 (music_norm_cmd cfg music music_norm))
             = [lit ''-af'', [Lit ''aresample='', Dec (target_sample_rate cfg)]]"
          "take 6 (drop 8 (mixer_mix_cmd cfg video voice_norm music_norm output_path))
             = [lit ''-filter_complex'', render_graph (mixer_graph cfg),
                lit ''-map'', lit ''0:v'', lit ''-map'', lit ''[out]'']"
    by (simp_all add: voice_norm_cmd_def music_norm_cmd_def mixer_mix_cmd_def render_mixer_graph)
  have e: "producer (mixer_graph cfg) ''out''
             = Some (Chain [''v'', ''m'']
                       [Filt ''amix'' [(''inputs'', Txt ''2''), (''duration'', Txt ''first''),
                                       (''dropout_transition'', Txt ''0''),
                                       (''normalize'', Txt ''0'')],
                        Filt ''volume'' [([], Txt ''1.5'')]] ''out'')"
          "producer (mixer_graph cfg) ''m''
             = Some (Chain [''2:a''] [Filt ''volume'' [([], Val (music_volume cfg))]] ''m'')"
          "filters_after ''amix'' (last (mixer_graph cfg)) = [Filt ''volume'' [([], Txt ''1.5'')]]"
          "''aresample'' \<notin> set (graph_filter_names (mixer_graph cfg))"
    by (simp_all add: producer_def mixer_graph_def filters_after_def graph_filter_names_def)
  have f: "default_music_volume = 0.15"
          "music_volume default_audio_mix_config = 0.15"
          "target_sample_rate default_audio_mix_config = 48000"
    by (simp_all add: default_music_volume_def default_audio_mix_config_def)
  show ?thesis
    using a b c d e f render_mix_graph render_mixer_graph by blast
qed

theorem mixers_filter_structure_witness:
  "render_graph (mix_graph 0.15)
     = [Lit ''[1:a]aresample=48000[vo];[2:a]aresample=48000,volume='', Flt 0.15,
        Lit ''[music];[vo][music]amix=inputs=2:duration=first:normalize=0[audio]'']
   \<and> render_graph (mixer_graph default_audio_mix_config)
     = [Lit ''[1:a]volume='', Flt 1, Lit ''[v];[2:a]volume='', Flt 0.15,
        Lit ''[m];[v][m]amix=inputs=2:duration=first:dropout_transition=0:normalize=0,volume=1.5[out]'']"
  using mixers_filter_structure [of "''video.mp4''" "Some ''vo.mp3''" "''music.mp3''" "''out.mp4''"
          "0.15" default_audio_mix_config 2 "''tmp''" "''vo.mp3''" "''v.wav''" "''m.wav''"]
  by (simp add: mix_filter_complex_def mixer_filter_complex_def default_audio_mix_config_def)

end
